theory Spec2Isabelle
  imports Main
begin

section \<open>Data model of the session broker (src/src/index.ts)\<close>

text \<open>
  JavaScript strings are modelled as \<open>string\<close>. Every test the server performs on the
  content of a string (the literal \<open>last\<close>, the prefix \<open>history:\<close>, ASCII digits, the
  suffix \<open>.png\<close>, the characters \<open>.\<close> and \<open>/\<close>) is a test on ASCII characters, so
  the encoding of other characters plays no role.
\<close>

text \<open>
  \<open>ImageHistoryEntry\<close> (lines 121-129). Its fields \<open>id\<close>, \<open>prompt\<close> and \<open>type\<close> are named
  \<open>entry_id\<close>, \<open>entry_prompt\<close> and \<open>entry_type\<close> here.
\<close>

datatype EntryType = generated | edited

record ImageHistoryEntry =
  entry_id :: string
  filePath :: string
  base64Data :: string
  mimeType :: string
  entry_prompt :: string
  timestamp :: nat
  entry_type :: EntryType

text \<open>
  A request part, as the handlers build it: either \<open>{ text }\<close> or
  \<open>{ inlineData: { mimeType, data } }\<close>.
\<close>

datatype Part = TextPart string | InlineData string string

text \<open>\<open>ConversationContext\<close> (lines 131-138) and the map \<open>conversations\<close> (line 140).\<close>

datatype Role = user | model

record ConversationContext =
  history :: "(Role \<times> Part list) list"
  imageHistory :: "ImageHistoryEntry list"
  aspectRatio :: "string option"

type_synonym Registry = "string \<rightharpoonup> ConversationContext"

definition VALID_ASPECT_RATIOS :: "string list" where
  "VALID_ASPECT_RATIOS =
     [''1:1'', ''9:16'', ''16:9'', ''3:4'', ''4:3'', ''3:2'', ''2:3'', ''5:4'', ''4:5'', ''21:9'']"

definition MAX_IMAGE_HISTORY :: nat where
  "MAX_IMAGE_HISTORY = 10"

definition MAX_REFERENCE_IMAGES :: nat where
  "MAX_REFERENCE_IMAGES = 3"

subsection \<open>Media store\<close>

text \<open>
  \<open>addImageToHistory\<close> (lines 153-162): \<open>push\<close>, then \<open>shift\<close> when the length
  exceeds \<open>MAX_IMAGE_HISTORY\<close>. The context is mutated in place in the source; the model
  returns the updated context.
\<close>

definition addImageToHistory :: "ConversationContext \<Rightarrow> ImageHistoryEntry \<Rightarrow> ConversationContext" where
  "addImageToHistory ctx entry =
     (let pushed = imageHistory ctx @ [entry]
      in if length pushed > MAX_IMAGE_HISTORY
         then ctx\<lparr>imageHistory := tl pushed\<rparr>
         else ctx\<lparr>imageHistory := pushed\<rparr>)"

text \<open>
  The regular expression \<open>/^history:(\d+)$/\<close> (line 175): the whole string is
  \<open>history:\<close> followed by one or more ASCII digits; the match returns the digits.
\<close>

definition isDigit :: "char \<Rightarrow> bool" where
  "isDigit c = (c \<in> set ''0123456789'')"

definition matchHistoryRef :: "string \<Rightarrow> string option" where
  "matchHistoryRef reference =
     (if take 8 reference = ''history:'' \<and> drop 8 reference \<noteq> [] \<and> list_all isDigit (drop 8 reference)
      then Some (drop 8 reference) else None)"

text \<open>
  \<open>parseInt(digits, 10)\<close> on a string of decimal digits. JavaScript returns a double,
  which is the exact value below \<open>2^53\<close> and a number of at least \<open>2^53\<close> (or
  \<open>Infinity\<close>) from there on. No array has an element at such an index, so the exact
  natural number gives the same lookup.
\<close>

definition digitValue :: "char \<Rightarrow> nat" where
  "digitValue c = of_char c - 48"

definition parseInt :: "string \<Rightarrow> nat" where
  "parseInt ds = foldl (\<lambda>n c. 10 * n + digitValue c) 0 ds"

text \<open>
  \<open>getImageFromHistory\<close> (lines 165-182). \<open>null\<close> is \<open>None\<close>; an index past the end
  reads \<open>undefined\<close>, which \<open>?? null\<close> turns into \<open>null\<close>.
\<close>

definition getImageFromHistory :: "ConversationContext \<Rightarrow> string \<Rightarrow> ImageHistoryEntry option" where
  "getImageFromHistory ctx reference =
     (if imageHistory ctx = [] then None
      else if reference = ''last'' then Some (last (imageHistory ctx))
      else case matchHistoryRef reference of
             Some digits \<Rightarrow>
               (let index = parseInt digits
                in if index < length (imageHistory ctx) then Some (imageHistory ctx ! index) else None)
           | None \<Rightarrow> None)"

text \<open>\<open>getOrCreateContext\<close> (lines 185-194).\<close>

definition newContext :: ConversationContext where
  "newContext = \<lparr>history = [], imageHistory = [], aspectRatio = None\<rparr>"

definition getOrCreateContext :: "Registry \<Rightarrow> string \<Rightarrow> Registry \<times> ConversationContext" where
  "getOrCreateContext conversations conversationId =
     (case conversations conversationId of
        None \<Rightarrow> (conversations(conversationId \<mapsto> newContext), newContext)
      | Some ctx \<Rightarrow> (conversations, ctx))"

subsection \<open>The environment of one tool call\<close>

text \<open>
  Everything a handler reads from outside the repository is a field of the environment:
  Node's \<open>path\<close>, \<open>os\<close>, \<open>process\<close> and \<open>fs\<close> modules, the clock, the random source,
  \<open>fetch\<close>, \<open>JSON.parse\<close> and the chat SDK. A call that can throw returns the error
  message instead: \<open>Some msg\<close> for \<open>fs.access\<close>, \<open>fs.mkdir\<close> and \<open>fs.writeFile\<close> (\<open>None\<close>
  is success), \<open>Inl msg\<close> for the calls that return a value.

  \<open>Date_now\<close> is indexed by the place that reads the clock in a generate or edit call:
  0 for the default file name, 1 for \<open>generateImageId\<close>, 2 for the record's timestamp.
  \<open>Math_random\<close> is the string \<open>Math.random().toString(36).substring(2, 11)\<close>.
  \<open>fetch\<close> takes the parts and the aspect ratio of the request body (the URL, the method
  and the other fields are constants) and returns the response with its body text read.
  \<open>sendMessage\<close> is \<open>model.startChat({history}).sendMessage(parts)\<close> followed by
  \<open>response.text()\<close>, for the given system instruction.
\<close>

datatype exn =
    ImageFileNotFound string
  | ApiRequestFailed nat string
  | SystemError string

record HttpResponse =
  response_ok :: bool
  response_status :: nat
  response_text :: string

text \<open>
  A part of a response chunk, as the aggregation loop reads it: \<open>part.inlineData?.data\<close>
  and \<open>part.text\<close>, each present or not. A chunk is the list of its candidates, a
  candidate the list \<open>content.parts\<close>; an absent \<open>candidates\<close>, \<open>content\<close> or \<open>parts\<close> is
  the empty list, as \<open>chunk?.candidates?.[0]?.content?.parts || []\<close> reads it.
  \<open>JSON_parse\<close> returns \<open>None\<close> when \<open>JSON.parse\<close> throws or the parsed value cannot be
  iterated as chunks of parts (any exception inside the \<open>try\<close> block of lines 85-105).
\<close>

record ResponsePart =
  inlineData_data :: "string option"
  part_text :: "string option"

type_synonym Candidate = "ResponsePart list"

type_synonym Chunk = "Candidate list"

record Env =
  process_cwd :: string
  os_homedir :: string
  path_isAbsolute :: "string \<Rightarrow> bool"
  path_join :: "string list \<Rightarrow> string"
  path_basename :: "string \<Rightarrow> string"
  path_dirname :: "string \<Rightarrow> string"
  path_parse_name :: "string \<Rightarrow> string"
  fs_access :: "string \<Rightarrow> string option"
  fs_readFile :: "string \<Rightarrow> string + string"
  fs_mkdir :: "string \<Rightarrow> string option"
  fs_writeFile :: "string \<Rightarrow> string \<Rightarrow> string option"
  Date_now :: "nat \<Rightarrow> nat"
  Math_random :: string
  fetch :: "Part list \<Rightarrow> string \<Rightarrow> string + HttpResponse"
  JSON_parse :: "string \<Rightarrow> Chunk list option"
  sendMessage :: "string option \<Rightarrow> (Role \<times> Part list) list \<Rightarrow> Part list \<Rightarrow> string + string"

text \<open>JavaScript truthiness of an optional string: present and not empty.\<close>

definition truthy :: "string option \<Rightarrow> bool" where
  "truthy v = (case v of None \<Rightarrow> False | Some s \<Rightarrow> s \<noteq> [])"

text \<open>The decimal rendering of a number in a template string.\<close>

fun show_nat :: "nat \<Rightarrow> string" where
  "show_nat n =
     (if n < 10 then [''0123456789'' ! n]
      else show_nat (n div 10) @ [''0123456789'' ! (n mod 10)])"

declare show_nat.simps [simp del]

definition generateImageId :: "Env \<Rightarrow> string" where
  "generateImageId env = ''img_'' @ show_nat (Date_now env 1) @ ''_'' @ Math_random env"

subsection \<open>Backend invocation adapter\<close>

record GeminiImageResponse =
  imageData :: "string option"
  textResponse :: string
  error :: "string option"

text \<open>
  The loop of lines 89-98 over the parts of one chunk and over the chunks, with the two
  variables \<open>imageData\<close> and \<open>textParts\<close> as the accumulator.
\<close>

definition partStep :: "string option \<times> string list \<Rightarrow> ResponsePart \<Rightarrow> string option \<times> string list" where
  "partStep acc part =
     (if truthy (inlineData_data part) then (inlineData_data part, snd acc)
      else case part_text part of
             Some t \<Rightarrow> (if t \<noteq> [] then (fst acc, snd acc @ [t]) else acc)
           | None \<Rightarrow> acc)"

definition chunkParts :: "Chunk \<Rightarrow> ResponsePart list" where
  "chunkParts chunk = (case chunk of [] \<Rightarrow> [] | candidate # _ \<Rightarrow> candidate)"

definition chunkStep :: "string option \<times> string list \<Rightarrow> Chunk \<Rightarrow> string option \<times> string list" where
  "chunkStep acc chunk = foldl partStep acc (chunkParts chunk)"

definition aggregateChunks :: "Chunk list \<Rightarrow> string option \<times> string list" where
  "aggregateChunks chunks = foldl chunkStep (None, []) chunks"

text \<open>\<open>callGeminiImageAPI\<close> (lines 45-111). A thrown error is \<open>Inl\<close>.\<close>

definition callGeminiImageAPI :: "Env \<Rightarrow> Part list \<Rightarrow> string \<Rightarrow> exn + GeminiImageResponse" where
  "callGeminiImageAPI env parts ratio =
     (case fetch env parts ratio of
        Inl msg \<Rightarrow> Inl (SystemError msg)
      | Inr response \<Rightarrow>
          if \<not> response_ok response
          then Inl (ApiRequestFailed (response_status response) (response_text response))
          else (case JSON_parse env (response_text response) of
                  None \<Rightarrow>
                    Inr \<lparr>imageData = None, textResponse = response_text response,
                         error = Some ''Failed to parse API response''\<rparr>
                | Some chunks \<Rightarrow>
                    Inr \<lparr>imageData = fst (aggregateChunks chunks),
                         textResponse = concat (snd (aggregateChunks chunks)),
                         error = None\<rparr>))"

subsection \<open>Reference resolution\<close>

text \<open>Lines 417-420, 529-532, 602-604, 702-704, 745-747 and 821-823.\<close>

definition resolveAgainstCwd :: "Env \<Rightarrow> string \<Rightarrow> string" where
  "resolveAgainstCwd env p =
     (if path_isAbsolute env p then p else path_join env [process_cwd env, p])"

definition defaultOutputDir :: "Env \<Rightarrow> string" where
  "defaultOutputDir env = path_join env [os_homedir env, ''Documents'', ''nanobanana_generated'']"

definition altPathOf :: "Env \<Rightarrow> string \<Rightarrow> string" where
  "altPathOf env reference =
     path_join env [os_homedir env, ''Documents'', ''nanobanana_generated'', path_basename env reference]"

definition imageToBase64 :: "Env \<Rightarrow> string \<Rightarrow> exn + string" where
  "imageToBase64 env imagePath =
     (case fs_readFile env imagePath of Inl msg \<Rightarrow> Inl (SystemError msg) | Inr data \<Rightarrow> Inr data)"

text \<open>
  The body of the \<open>try\<close> block for one image of a chat call (lines 405-437) and for one
  reference image of an edit call (lines 732-764): the two are the same code.
\<close>

definition resolveImageRef :: "Env \<Rightarrow> ConversationContext \<Rightarrow> string \<Rightarrow> exn + Part" where
  "resolveImageRef env ctx imgRef =
     (case getImageFromHistory ctx imgRef of
        Some historyImage \<Rightarrow> Inr (InlineData (mimeType historyImage) (base64Data historyImage))
      | None \<Rightarrow>
          (case fs_access env (resolveAgainstCwd env imgRef) of
             None \<Rightarrow> map_sum id (InlineData ''image/png'') (imageToBase64 env (resolveAgainstCwd env imgRef))
           | Some _ \<Rightarrow>
               (case fs_access env (altPathOf env imgRef) of
                  Some msg \<Rightarrow> Inl (SystemError msg)
                | None \<Rightarrow> map_sum id (InlineData ''image/png'') (imageToBase64 env (altPathOf env imgRef)))))"

text \<open>The loop around it: resolved parts in order, failures collected in order.\<close>

fun resolveImageRefs :: "Env \<Rightarrow> ConversationContext \<Rightarrow> string list \<Rightarrow> Part list \<times> (string \<times> exn) list" where
  "resolveImageRefs env ctx [] = ([], [])"
| "resolveImageRefs env ctx (imgRef # rest) =
     (case resolveImageRef env ctx imgRef of
        Inr part \<Rightarrow> (part # fst (resolveImageRefs env ctx rest), snd (resolveImageRefs env ctx rest))
      | Inl e \<Rightarrow> (fst (resolveImageRefs env ctx rest), (imgRef, e) # snd (resolveImageRefs env ctx rest)))"

text \<open>
  One manual reference image of a generate call (lines 528-545): the path is read with
  no history lookup and no second location.
\<close>

definition loadReferenceImage :: "Env \<Rightarrow> string \<Rightarrow> exn + Part" where
  "loadReferenceImage env imgPath =
     map_sum id (InlineData ''image/png'') (imageToBase64 env (resolveAgainstCwd env imgPath))"

fun loadReferenceImages :: "Env \<Rightarrow> string list \<Rightarrow> Part list \<times> (string \<times> exn) list" where
  "loadReferenceImages env [] = ([], [])"
| "loadReferenceImages env (imgPath # rest) =
     (case loadReferenceImage env imgPath of
        Inr part \<Rightarrow> (part # fst (loadReferenceImages env rest), snd (loadReferenceImages env rest))
      | Inl e \<Rightarrow> (fst (loadReferenceImages env rest), (imgPath, e) # snd (loadReferenceImages env rest)))"

text \<open>
  The subject of an edit call (lines 692-723): the resolved path and the image data, or
  the thrown error.
\<close>

definition resolveSubject :: "Env \<Rightarrow> ConversationContext \<Rightarrow> string \<Rightarrow> exn + string \<times> string" where
  "resolveSubject env ctx image_path =
     (case getImageFromHistory ctx image_path of
        Some historyImage \<Rightarrow> Inr (filePath historyImage, base64Data historyImage)
      | None \<Rightarrow>
          (case fs_access env (resolveAgainstCwd env image_path) of
             None \<Rightarrow>
               map_sum id (Pair (resolveAgainstCwd env image_path))
                 (imageToBase64 env (resolveAgainstCwd env image_path))
           | Some _ \<Rightarrow>
               (case fs_access env (altPathOf env image_path) of
                  Some _ \<Rightarrow> Inl (ImageFileNotFound image_path)
                | None \<Rightarrow>
                    map_sum id (Pair (altPathOf env image_path))
                      (imageToBase64 env (altPathOf env image_path)))))"

subsection \<open>Output materialization\<close>

text \<open>
  \<open>toLowerCase\<close> on the ASCII letters, and \<open>endsWith\<close>. No other character lower-cases
  to \<open>p\<close>, \<open>n\<close>, \<open>g\<close> or a dot, so the test of line 605 depends on these only.
\<close>

definition toLowerCaseChar :: "char \<Rightarrow> char" where
  "toLowerCaseChar c =
     (case map_of (zip ''ABCDEFGHIJKLMNOPQRSTUVWXYZ'' ''abcdefghijklmnopqrstuvwxyz'') c of
        Some l \<Rightarrow> l
      | None \<Rightarrow> c)"

definition toLowerCase :: "string \<Rightarrow> string" where
  "toLowerCase s = map toLowerCaseChar s"

definition endsWith :: "string \<Rightarrow> string \<Rightarrow> bool" where
  "endsWith s suffix = (length suffix \<le> length s \<and> drop (length s - length suffix) s = suffix)"

text \<open>
  \<open>s.replace(/\.[^/.]+$/, '')\<close>: the match is a dot followed by one or more characters
  other than \<open>/\<close> and \<open>.\<close> up to the end of the string, so it starts at the dot right
  before the longest such run of final characters, when that run is not empty and a dot
  stands before it.
\<close>

definition stripExtension :: "string \<Rightarrow> string" where
  "stripExtension s =
     (let ext = takeWhile (\<lambda>c. c \<noteq> CHR ''/'' \<and> c \<noteq> CHR ''.'') (rev s);
          rest = drop (length ext) (rev s)
      in if ext \<noteq> [] \<and> rest \<noteq> [] \<and> hd rest = CHR ''.'' then rev (tl rest) else s)"

text \<open>Lines 605-607 and 824-826.\<close>

definition forcePngExtension :: "string \<Rightarrow> string" where
  "forcePngExtension finalPath =
     (if \<not> endsWith (toLowerCase finalPath) ''.png''
      then stripExtension finalPath @ ''.png''
      else finalPath)"

text \<open>Lines 601-608 and 820-827: the branch of a requested output path.\<close>

definition requestedOutputPath :: "Env \<Rightarrow> string \<Rightarrow> string" where
  "requestedOutputPath env output_path = forcePngExtension (resolveAgainstCwd env output_path)"

text \<open>
  Lines 594-608 of the generate handler. \<open>!finalPath\<close> holds for an absent and for an
  empty \<open>output_path\<close>; \<open>fs.mkdir\<close> may throw.
\<close>

definition generateOutputPath :: "Env \<Rightarrow> string option \<Rightarrow> exn + string" where
  "generateOutputPath env output_path =
     (if \<not> truthy output_path
      then (case fs_mkdir env (defaultOutputDir env) of
              Some msg \<Rightarrow> Inl (SystemError msg)
            | None \<Rightarrow>
                Inr (path_join env
                       [defaultOutputDir env, ''generated_'' @ show_nat (Date_now env 0) @ ''.png'']))
      else Inr (requestedOutputPath env (the output_path)))"

text \<open>Lines 812-827 of the edit handler.\<close>

definition editOutputPath :: "Env \<Rightarrow> ConversationContext \<Rightarrow> string \<Rightarrow> string option \<Rightarrow> exn + string" where
  "editOutputPath env ctx image_path output_path =
     (if \<not> truthy output_path
      then (let origName =
                  (case getImageFromHistory ctx image_path of
                     Some historyImage \<Rightarrow> ''history_'' @ entry_id historyImage
                   | None \<Rightarrow> path_parse_name env image_path)
            in case fs_mkdir env (defaultOutputDir env) of
                 Some msg \<Rightarrow> Inl (SystemError msg)
               | None \<Rightarrow>
                   Inr (path_join env
                          [defaultOutputDir env,
                           origName @ ''_edited_'' @ show_nat (Date_now env 0) @ ''.png'']))
      else Inr (requestedOutputPath env (the output_path)))"

text \<open>
  \<open>saveImageFromBuffer\<close> (lines 202-207). The buffer is the decoded image data; the
  model hands the data over as it is.
\<close>

definition saveImageFromBuffer :: "Env \<Rightarrow> string \<Rightarrow> string \<Rightarrow> exn option" where
  "saveImageFromBuffer env buffer outputPath =
     (case fs_mkdir env (path_dirname env outputPath) of
        Some msg \<Rightarrow> Some (SystemError msg)
      | None \<Rightarrow>
          (case fs_writeFile env outputPath buffer of
             Some msg \<Rightarrow> Some (SystemError msg)
           | None \<Rightarrow> None))"

subsection \<open>Tool calls, responses and the trace of a call\<close>

text \<open>
  A response is the \<open>return\<close> statement that produced it, with the values its text is
  built from. \<open>ToolError\<close> is the outer \<open>catch\<close> (lines 951-961),
  \<open>ErrorGeneratingImage\<close> and \<open>ErrorEditingImage\<close> the inner ones (lines 642-649 and
  862-869).
\<close>

datatype ToolResponse =
    ChatReply nat string "(string \<times> exn) list"
  | InvalidAspectRatio string
  | AspectRatioNotSpecified
  | ImageGenerationFailedWith string string
  | ImageGenerationFailed string
  | ImageGenerated string nat "(string \<times> exn) list" string
  | ErrorGeneratingImage exn
  | ImageEditingFailedWith string string
  | ImageEditingFailed string
  | ImageEdited string string nat "(string \<times> exn) list" string
  | ErrorEditingImage exn
  | NoImageHistory
  | ImageHistoryListing "ImageHistoryEntry list"
  | ConversationCleared
  | AspectRatioSet string
  | ToolError exn

text \<open>
  The trace of a call: the invocations of the backend (\<open>callGeminiImageAPI\<close> with its
  parts and ratio, the chat SDK with the system instruction, the replayed history and the
  parts of the new turn) and the calls of \<open>addImageToHistory\<close> with the session key.
\<close>

datatype Event =
    ImageApiCall "Part list" string
  | ChatCall "string option" "(Role \<times> Part list) list" "Part list"
  | HistoryAppend string ImageHistoryEntry

definition conversationIdOrDefault :: "string option \<Rightarrow> string" where
  "conversationIdOrDefault conversation_id =
     (case conversation_id of None \<Rightarrow> ''default'' | Some c \<Rightarrow> c)"

subsection \<open>Chat\<close>

text \<open>
  \<open>gemini_chat\<close> (lines 390-480). \<open>context.history.slice(0, -1)\<close> is \<open>butlast\<close>. A
  throwing backend call leaves the handler through the outer \<open>catch\<close>.
\<close>

definition chatMessageParts :: "Env \<Rightarrow> ConversationContext \<Rightarrow> string \<Rightarrow> string list \<Rightarrow> Part list" where
  "chatMessageParts env ctx message images =
     [TextPart message] @ fst (resolveImageRefs env ctx (take 10 images))"

definition gemini_chat ::
  "Env \<Rightarrow> Registry \<Rightarrow> string \<Rightarrow> string option \<Rightarrow> string option \<Rightarrow> string list
     \<Rightarrow> ToolResponse \<times> Registry \<times> Event list" where
  "gemini_chat env conversations message conversation_id system_prompt images =
     (let cid = conversationIdOrDefault conversation_id;
          conversations1 = fst (getOrCreateContext conversations cid);
          ctx = snd (getOrCreateContext conversations cid);
          messageParts = chatMessageParts env ctx message images;
          failedImages = snd (resolveImageRefs env ctx (take 10 images));
          ctx1 = ctx\<lparr>history := history ctx @ [(user, messageParts)]\<rparr>;
          call = ChatCall system_prompt (butlast (history ctx1)) messageParts
      in case sendMessage env system_prompt (butlast (history ctx1)) messageParts of
           Inl msg \<Rightarrow> (ToolError (SystemError msg), conversations1(cid \<mapsto> ctx1), [call])
         | Inr reply \<Rightarrow>
             (ChatReply (length messageParts - 1) reply failedImages,
              conversations1(cid \<mapsto> ctx1\<lparr>history := history ctx1 @ [(model, [TextPart reply])]\<rparr>),
              [call]))"

subsection \<open>Ratio resolution\<close>

text \<open>
  Lines 497-519 of the generate handler and 667-689 of the edit handler (the same code):
  the validation of a truthy \<open>aspect_ratio\<close>, then \<open>aspect_ratio ?? context.aspectRatio\<close>
  and the test against \<open>null\<close>. An absent argument is \<open>None\<close>.
\<close>

definition resolveAspectRatio :: "string option \<Rightarrow> ConversationContext \<Rightarrow> ToolResponse + string" where
  "resolveAspectRatio aspect_ratio ctx =
     (if truthy aspect_ratio \<and> the aspect_ratio \<notin> set VALID_ASPECT_RATIOS
      then Inl (InvalidAspectRatio (the aspect_ratio))
      else (case (case aspect_ratio of Some r \<Rightarrow> Some r | None \<Rightarrow> aspectRatio ctx) of
              None \<Rightarrow> Inl AspectRatioNotSpecified
            | Some effectiveAspectRatio \<Rightarrow> Inr effectiveAspectRatio))"

subsection \<open>Generate\<close>

definition CONSISTENCY_INSTRUCTION :: string where
  "CONSISTENCY_INSTRUCTION =
     [CHR 0x0A, CHR 0x0A] @
     ''IMPORTANT: Maintain visual consistency with the provided reference images (same style, character appearance, color palette).''"

text \<open>
  Lines 522-567: the parts of the request. \<open>slice(-MAX_REFERENCE_IMAGES)\<close> keeps the
  last three elements, or all of a shorter list.
\<close>

definition historyParts :: "ConversationContext \<Rightarrow> bool \<Rightarrow> Part list" where
  "historyParts ctx use_image_history =
     (if use_image_history \<and> length (imageHistory ctx) > 0
      then map (\<lambda>img. InlineData (mimeType img) (base64Data img))
             (drop (length (imageHistory ctx) - MAX_REFERENCE_IMAGES) (imageHistory ctx))
      else [])"

definition finalPrompt :: "ConversationContext \<Rightarrow> bool \<Rightarrow> string \<Rightarrow> string" where
  "finalPrompt ctx use_image_history prompt =
     (if use_image_history \<and> length (imageHistory ctx) > 0
      then prompt @ CONSISTENCY_INSTRUCTION
      else prompt)"

definition generateParts :: "Env \<Rightarrow> ConversationContext \<Rightarrow> string \<Rightarrow> bool \<Rightarrow> string list \<Rightarrow> Part list" where
  "generateParts env ctx prompt use_image_history reference_images =
     fst (loadReferenceImages env reference_images)
     @ historyParts ctx use_image_history
     @ [TextPart (finalPrompt ctx use_image_history prompt)]"

text \<open>
  Lines 521-641, entered once the ratio is known: the response, the context after the
  call and the trace.
\<close>

definition generateWithRatio ::
  "Env \<Rightarrow> string \<Rightarrow> ConversationContext \<Rightarrow> string \<Rightarrow> string option \<Rightarrow> bool \<Rightarrow> string list \<Rightarrow> string
     \<Rightarrow> ToolResponse \<times> ConversationContext \<times> Event list" where
  "generateWithRatio env cid ctx prompt output_path use_image_history reference_images ratio =
     (let parts = generateParts env ctx prompt use_image_history reference_images;
          failedReferenceImages = snd (loadReferenceImages env reference_images)
      in case callGeminiImageAPI env parts ratio of
           Inl e \<Rightarrow> (ErrorGeneratingImage e, ctx, [ImageApiCall parts ratio])
         | Inr apiResponse \<Rightarrow>
             if truthy (error apiResponse)
             then (ImageGenerationFailedWith (the (error apiResponse)) (textResponse apiResponse),
                   ctx, [ImageApiCall parts ratio])
             else if \<not> truthy (imageData apiResponse)
             then (ImageGenerationFailed (textResponse apiResponse), ctx, [ImageApiCall parts ratio])
             else (case generateOutputPath env output_path of
                     Inl e \<Rightarrow> (ErrorGeneratingImage e, ctx, [ImageApiCall parts ratio])
                   | Inr finalPath \<Rightarrow>
                       (case saveImageFromBuffer env (the (imageData apiResponse)) finalPath of
                          Some e \<Rightarrow> (ErrorGeneratingImage e, ctx, [ImageApiCall parts ratio])
                        | None \<Rightarrow>
                            (let entry = \<lparr>entry_id = generateImageId env, filePath = finalPath,
                                          base64Data = the (imageData apiResponse),
                                          mimeType = ''image/png'', entry_prompt = prompt,
                                          timestamp = Date_now env 2, entry_type = generated\<rparr>;
                                 ctx1 = addImageToHistory ctx entry
                             in (ImageGenerated finalPath (length (imageHistory ctx1))
                                   failedReferenceImages (textResponse apiResponse),
                                 ctx1,
                                 [ImageApiCall parts ratio, HistoryAppend cid entry])))))"

text \<open>\<open>gemini_generate_image\<close> (lines 482-650).\<close>

definition gemini_generate_image ::
  "Env \<Rightarrow> Registry \<Rightarrow> string \<Rightarrow> string option \<Rightarrow> string option \<Rightarrow> string option \<Rightarrow> bool \<Rightarrow> string list
     \<Rightarrow> ToolResponse \<times> Registry \<times> Event list" where
  "gemini_generate_image env conversations prompt aspect_ratio output_path conversation_id
       use_image_history reference_images =
     (let cid = conversationIdOrDefault conversation_id;
          conversations1 = fst (getOrCreateContext conversations cid);
          ctx = snd (getOrCreateContext conversations cid)
      in case resolveAspectRatio aspect_ratio ctx of
           Inl response \<Rightarrow> (response, conversations1, [])
         | Inr ratio \<Rightarrow>
             (case generateWithRatio env cid ctx prompt output_path use_image_history
                     reference_images ratio of
                (response, ctx1, events) \<Rightarrow> (response, conversations1(cid \<mapsto> ctx1), events)))"

subsection \<open>Edit\<close>

definition editingPrompt :: "string \<Rightarrow> string" where
  "editingPrompt edit_prompt =
     ''Based on this image, generate a new edited version with the following modifications: ''
     @ edit_prompt @ [CHR 0x0A, CHR 0x0A] @
     ''IMPORTANT: Create a completely new image that incorporates the requested changes while maintaining the style and overall composition of the original.''"

text \<open>Lines 725-785: the parts of the request, for the image data of the subject.\<close>

definition editParts :: "Env \<Rightarrow> ConversationContext \<Rightarrow> string \<Rightarrow> string list \<Rightarrow> string \<Rightarrow> Part list" where
  "editParts env ctx edit_prompt reference_images imageBase64 =
     fst (resolveImageRefs env ctx (take 10 reference_images))
     @ [TextPart (editingPrompt edit_prompt)]
     @ [InlineData ''image/png'' imageBase64]"

text \<open>Lines 691-861, entered once the ratio is known.\<close>

definition editWithRatio ::
  "Env \<Rightarrow> string \<Rightarrow> ConversationContext \<Rightarrow> string \<Rightarrow> string \<Rightarrow> string option \<Rightarrow> string list \<Rightarrow> string
     \<Rightarrow> ToolResponse \<times> ConversationContext \<times> Event list" where
  "editWithRatio env cid ctx image_path edit_prompt output_path reference_images ratio =
     (case resolveSubject env ctx image_path of
        Inl e \<Rightarrow> (ErrorEditingImage e, ctx, [])
      | Inr (resolvedImagePath, imageBase64) \<Rightarrow>
          (let parts = editParts env ctx edit_prompt reference_images imageBase64;
               failedReferenceImages = snd (resolveImageRefs env ctx (take 10 reference_images))
           in case callGeminiImageAPI env parts ratio of
                Inl e \<Rightarrow> (ErrorEditingImage e, ctx, [ImageApiCall parts ratio])
              | Inr apiResponse \<Rightarrow>
                  if truthy (error apiResponse)
                  then (ImageEditingFailedWith (the (error apiResponse)) (textResponse apiResponse),
                        ctx, [ImageApiCall parts ratio])
                  else if \<not> truthy (imageData apiResponse)
                  then (ImageEditingFailed (textResponse apiResponse), ctx, [ImageApiCall parts ratio])
                  else (case editOutputPath env ctx image_path output_path of
                          Inl e \<Rightarrow> (ErrorEditingImage e, ctx, [ImageApiCall parts ratio])
                        | Inr finalPath \<Rightarrow>
                            (case saveImageFromBuffer env (the (imageData apiResponse)) finalPath of
                               Some e \<Rightarrow> (ErrorEditingImage e, ctx, [ImageApiCall parts ratio])
                             | None \<Rightarrow>
                                 (let entry = \<lparr>entry_id = generateImageId env, filePath = finalPath,
                                               base64Data = the (imageData apiResponse),
                                               mimeType = ''image/png'', entry_prompt = edit_prompt,
                                               timestamp = Date_now env 2, entry_type = edited\<rparr>;
                                      ctx1 = addImageToHistory ctx entry
                                  in (ImageEdited resolvedImagePath finalPath
                                        (length (imageHistory ctx1)) failedReferenceImages
                                        (textResponse apiResponse),
                                      ctx1,
                                      [ImageApiCall parts ratio, HistoryAppend cid entry]))))))"

text \<open>\<open>gemini_edit_image\<close> (lines 652-870).\<close>

definition gemini_edit_image ::
  "Env \<Rightarrow> Registry \<Rightarrow> string \<Rightarrow> string \<Rightarrow> string option \<Rightarrow> string option \<Rightarrow> string option \<Rightarrow> string list
     \<Rightarrow> ToolResponse \<times> Registry \<times> Event list" where
  "gemini_edit_image env conversations image_path edit_prompt aspect_ratio output_path
       conversation_id reference_images =
     (let cid = conversationIdOrDefault conversation_id;
          conversations1 = fst (getOrCreateContext conversations cid);
          ctx = snd (getOrCreateContext conversations cid)
      in case resolveAspectRatio aspect_ratio ctx of
           Inl response \<Rightarrow> (response, conversations1, [])
         | Inr ratio \<Rightarrow>
             (case editWithRatio env cid ctx image_path edit_prompt output_path
                     reference_images ratio of
                (response, ctx1, events) \<Rightarrow> (response, conversations1(cid \<mapsto> ctx1), events)))"

subsection \<open>The other tools and the dispatcher\<close>

text \<open>\<open>get_image_history\<close> (lines 872-907): \<open>conversations.get\<close>, no context is created.\<close>

definition get_image_history :: "Registry \<Rightarrow> string \<Rightarrow> ToolResponse \<times> Registry \<times> Event list" where
  "get_image_history conversations conversation_id =
     (case conversations conversation_id of
        None \<Rightarrow> (NoImageHistory, conversations, [])
      | Some ctx \<Rightarrow>
          if imageHistory ctx = [] then (NoImageHistory, conversations, [])
          else (ImageHistoryListing (imageHistory ctx), conversations, []))"

text \<open>\<open>clear_conversation\<close> (lines 909-921): \<open>conversations.delete\<close>.\<close>

definition clear_conversation :: "Registry \<Rightarrow> string \<Rightarrow> ToolResponse \<times> Registry \<times> Event list" where
  "clear_conversation conversations conversation_id =
     (ConversationCleared, conversations(conversation_id := None), [])"

text \<open>\<open>set_aspect_ratio\<close> (lines 923-946): the validation has no truthiness test.\<close>

definition set_aspect_ratio :: "Registry \<Rightarrow> string \<Rightarrow> string option \<Rightarrow> ToolResponse \<times> Registry \<times> Event list" where
  "set_aspect_ratio conversations aspect_ratio conversation_id =
     (if aspect_ratio \<notin> set VALID_ASPECT_RATIOS
      then (InvalidAspectRatio aspect_ratio, conversations, [])
      else (let cid = conversationIdOrDefault conversation_id;
                conversations1 = fst (getOrCreateContext conversations cid);
                ctx = snd (getOrCreateContext conversations cid)
            in (AspectRatioSet aspect_ratio,
                conversations1(cid \<mapsto> ctx\<lparr>aspectRatio := Some aspect_ratio\<rparr>), [])))"

text \<open>
  A tool call with its arguments, in the order of the handler's parameters, and the
  \<open>switch\<close> of lines 389-950.
\<close>

datatype ToolCall =
    gemini_chat_call string "string option" "string option" "string list"
  | gemini_generate_image_call string "string option" "string option" "string option" bool "string list"
  | gemini_edit_image_call string string "string option" "string option" "string option" "string list"
  | get_image_history_call string
  | clear_conversation_call string
  | set_aspect_ratio_call string "string option"
  | unknown_tool_call string

fun callTool :: "Env \<Rightarrow> Registry \<Rightarrow> ToolCall \<Rightarrow> ToolResponse \<times> Registry \<times> Event list" where
  "callTool env conversations (gemini_chat_call message conversation_id system_prompt images) =
     gemini_chat env conversations message conversation_id system_prompt images"
| "callTool env conversations
     (gemini_generate_image_call prompt aspect_ratio output_path conversation_id use_image_history reference_images) =
     gemini_generate_image env conversations prompt aspect_ratio output_path conversation_id
       use_image_history reference_images"
| "callTool env conversations
     (gemini_edit_image_call image_path edit_prompt aspect_ratio output_path conversation_id reference_images) =
     gemini_edit_image env conversations image_path edit_prompt aspect_ratio output_path
       conversation_id reference_images"
| "callTool env conversations (get_image_history_call conversation_id) =
     get_image_history conversations conversation_id"
| "callTool env conversations (clear_conversation_call conversation_id) =
     clear_conversation conversations conversation_id"
| "callTool env conversations (set_aspect_ratio_call aspect_ratio conversation_id) =
     set_aspect_ratio conversations aspect_ratio conversation_id"
| "callTool env conversations (unknown_tool_call name) =
     (ToolError (SystemError (''Unknown tool: '' @ name)), conversations, [])"

subsection \<open>Runs of the server\<close>

text \<open>
  The server starts with an empty \<open>conversations\<close> map and handles one call after the
  other, each in the environment of its moment. A run keeps, for every call, the
  response and the trace.
\<close>

type_synonym Step = "ToolCall \<times> ToolResponse \<times> Event list"

definition runStep :: "Registry \<times> Step list \<Rightarrow> Env \<times> ToolCall \<Rightarrow> Registry \<times> Step list" where
  "runStep state input =
     (case callTool (fst input) (fst state) (snd input) of
        (response, conversations1, events) \<Rightarrow>
          (conversations1, snd state @ [(snd input, response, events)]))"

definition run :: "(Env \<times> ToolCall) list \<Rightarrow> Registry \<times> Step list" where
  "run inputs = foldl runStep (Map.empty, []) inputs"

text \<open>
  What a run did to one session: whether a step is a generate or edit call on the
  session that answered with success, whether it cleared the session, and the records
  it handed to \<open>addImageToHistory\<close>; then the successes counted, and the records
  collected in call order, since the session was last cleared.
\<close>

fun succeededOn :: "string \<Rightarrow> Step \<Rightarrow> bool" where
  "succeededOn cid (gemini_generate_image_call _ _ _ conversation_id _ _, ImageGenerated _ _ _ _, _) =
     (conversationIdOrDefault conversation_id = cid)"
| "succeededOn cid (gemini_edit_image_call _ _ _ _ conversation_id _, ImageEdited _ _ _ _ _, _) =
     (conversationIdOrDefault conversation_id = cid)"
| "succeededOn cid _ = False"

definition clearsSession :: "string \<Rightarrow> Step \<Rightarrow> bool" where
  "clearsSession cid step = (fst step = clear_conversation_call cid)"

fun appendedTo :: "string \<Rightarrow> Event list \<Rightarrow> ImageHistoryEntry list" where
  "appendedTo cid [] = []"
| "appendedTo cid (HistoryAppend c entry # events) =
     (if c = cid then entry # appendedTo cid events else appendedTo cid events)"
| "appendedTo cid (_ # events) = appendedTo cid events"

definition sessionSuccesses :: "string \<Rightarrow> Step list \<Rightarrow> nat" where
  "sessionSuccesses cid steps =
     foldl (\<lambda>n step. if clearsSession cid step then 0
                      else if succeededOn cid step then n + 1 else n) 0 steps"

definition sessionRecords :: "string \<Rightarrow> Step list \<Rightarrow> ImageHistoryEntry list" where
  "sessionRecords cid steps =
     foldl (\<lambda>records step. if clearsSession cid step then []
                            else records @ appendedTo cid (snd (snd step))) [] steps"

subsection \<open>A sample environment\<close>

text \<open>
  The environment the closed examples are evaluated in: paths joined with \<open>/\<close> and not
  normalised, a file system that holds the two files \<open>/work/ref.png\<close> and
  \<open>/home/u/Documents/nanobanana_generated/old.png\<close>, a backend that answers every
  request with one chunk carrying one image and one text, and a chat backend that
  answers \<open>hello\<close>.
\<close>

fun joinPaths :: "string list \<Rightarrow> string" where
  "joinPaths [] = ''.''"
| "joinPaths [p] = p"
| "joinPaths (p # ps) = p @ ''/'' @ joinPaths ps"

definition lastSegment :: "string \<Rightarrow> string" where
  "lastSegment p = rev (takeWhile (\<lambda>c. c \<noteq> CHR ''/'') (rev p))"

definition sampleFiles :: "(string \<times> string) list" where
  "sampleFiles =
     [(''/work/ref.png'', ''UkVG''),
      (''/home/u/Documents/nanobanana_generated/old.png'', ''T0xE'')]"

definition sampleEnv :: Env where
  "sampleEnv =
     \<lparr>process_cwd = ''/work'',
      os_homedir = ''/home/u'',
      path_isAbsolute = (\<lambda>p. take 1 p = ''/''),
      path_join = joinPaths,
      path_basename = lastSegment,
      path_dirname = (\<lambda>p. take (length p - length (lastSegment p) - 1) p),
      path_parse_name = (\<lambda>p. takeWhile (\<lambda>c. c \<noteq> CHR ''.'') (lastSegment p)),
      fs_access = (\<lambda>p. case map_of sampleFiles p of None \<Rightarrow> Some ''ENOENT'' | Some _ \<Rightarrow> None),
      fs_readFile = (\<lambda>p. case map_of sampleFiles p of None \<Rightarrow> Inl ''ENOENT'' | Some d \<Rightarrow> Inr d),
      fs_mkdir = (\<lambda>p. None),
      fs_writeFile = (\<lambda>p d. None),
      Date_now = (\<lambda>k. 1700000000000 + k),
      Math_random = ''k3j9x0q2z'',
      fetch = (\<lambda>parts ratio. Inr \<lparr>response_ok = True, response_status = 200, response_text = ''[]''\<rparr>),
      JSON_parse = (\<lambda>body. Some [[[\<lparr>inlineData_data = Some ''SU1H'', part_text = None\<rparr>,
                                     \<lparr>inlineData_data = None, part_text = Some ''done''\<rparr>]]]),
      sendMessage = (\<lambda>system_prompt transcript parts. Inr ''hello'')\<rparr>"

text \<open>
  The run of the closed example for the media history: the ratio is configured for
  session \<open>s\<close>, then eleven images are generated with the prompts \<open>a\<close> to \<open>k\<close>.
\<close>

definition sampleRun :: "(Env \<times> ToolCall) list" where
  "sampleRun =
     (sampleEnv, set_aspect_ratio_call ''1:1'' (Some ''s''))
     # map (\<lambda>p. (sampleEnv, gemini_generate_image_call p None None (Some ''s'') False []))
         [''a'', ''b'', ''c'', ''d'', ''e'', ''f'', ''g'', ''h'', ''i'', ''j'', ''k'']"

subsection \<open>Notions used in the statements\<close>

text \<open>
  The media history of a session key in the registry (empty when the registry has no
  context for the key), and what \<open>push\<close> followed by the conditional \<open>shift\<close> does to a
  list.
\<close>

definition sessionHistory :: "Registry \<Rightarrow> string \<Rightarrow> ImageHistoryEntry list" where
  "sessionHistory conversations cid =
     (case conversations cid of None \<Rightarrow> [] | Some ctx \<Rightarrow> imageHistory ctx)"

definition pushBounded :: "ImageHistoryEntry list \<Rightarrow> ImageHistoryEntry \<Rightarrow> ImageHistoryEntry list" where
  "pushBounded h e = (if length h \<ge> 10 then tl h @ [e] else h @ [e])"

text \<open>
  The effect of one step on a session: either nothing was handed to
  \<open>addImageToHistory\<close> for it, its history is unchanged and the step is no success on
  it, or exactly one record was, the history is the old one with the record pushed, and
  the step is a success on it.
\<close>

definition stepEffect :: "string \<Rightarrow> Registry \<Rightarrow> Registry \<Rightarrow> Step \<Rightarrow> bool" where
  "stepEffect cid reg reg1 step =
     ((appendedTo cid (snd (snd step)) = [] \<and> sessionHistory reg1 cid = sessionHistory reg cid
         \<and> \<not> succeededOn cid step)
      \<or> (\<exists>e. appendedTo cid (snd (snd step)) = [e]
            \<and> sessionHistory reg1 cid = pushBounded (sessionHistory reg cid) e
            \<and> succeededOn cid step))"

text \<open>
  The file a reference settles on when the history does not resolve it, in the words of
  the specification: the path itself, resolved against the working directory when it is
  relative; when that path is not accessible, the basename inside the default output
  directory; when that is not accessible either, none.
\<close>

definition spec_resolveFilePath :: "Env \<Rightarrow> string \<Rightarrow> string option" where
  "spec_resolveFilePath env reference =
     (if fs_access env (resolveAgainstCwd env reference) = None
      then Some (resolveAgainstCwd env reference)
      else if fs_access env (altPathOf env reference) = None
      then Some (altPathOf env reference)
      else None)"

text \<open>A session with three media records, for the closed examples.\<close>

definition sampleEntry :: "string \<Rightarrow> ImageHistoryEntry" where
  "sampleEntry p =
     \<lparr>entry_id = ''img_'' @ p, filePath = ''/out/'' @ p @ ''.png'', base64Data = p,
      mimeType = ''image/png'', entry_prompt = p, timestamp = 0, entry_type = generated\<rparr>"

definition sampleContext :: ConversationContext where
  "sampleContext =
     \<lparr>history = [], imageHistory = [sampleEntry ''x'', sampleEntry ''y'', sampleEntry ''z''],
      aspectRatio = None\<rparr>"

text \<open>
  The context a call works on (the one \<open>getOrCreateContext\<close> returns for its session
  key), and the requests a trace sent to the image backend.
\<close>

definition callContext :: "Registry \<Rightarrow> string option \<Rightarrow> ConversationContext" where
  "callContext conversations conversation_id =
     snd (getOrCreateContext conversations (conversationIdOrDefault conversation_id))"

fun backendRequests :: "Event list \<Rightarrow> (Part list \<times> string) list" where
  "backendRequests [] = []"
| "backendRequests (ImageApiCall parts ratio # events) = (parts, ratio) # backendRequests events"
| "backendRequests (_ # events) = backendRequests events"

text \<open>
  The request parts of a generate call in the words of the specification: the manual
  reference images that could be read, in the order given, and the most recent up to
  three media records, oldest first.
\<close>

definition spec_manualReferenceParts :: "Env \<Rightarrow> string list \<Rightarrow> Part list" where
  "spec_manualReferenceParts env reference_images =
     List.map_filter
       (\<lambda>p. case fs_readFile env (resolveAgainstCwd env p) of
              Inr d \<Rightarrow> Some (InlineData ''image/png'' d)
            | Inl _ \<Rightarrow> None)
       reference_images"

definition spec_recentHistoryParts :: "ConversationContext \<Rightarrow> Part list" where
  "spec_recentHistoryParts ctx =
     map (\<lambda>img. InlineData (mimeType img) (base64Data img)) (rev (take 3 (rev (imageHistory ctx))))"

text \<open>A registry whose default session has the ratio \<open>1:1\<close> configured.\<close>

definition configuredRegistry :: Registry where
  "configuredRegistry = Map.empty(''default'' \<mapsto> newContext\<lparr>aspectRatio := Some ''1:1''\<rparr>)"

text \<open>
  The images of a chat call or the reference images of an edit call, in the words of the
  specification: the parts of the references that resolve, in the order given, and the
  references that fail, each with its error.
\<close>

definition spec_resolvedParts :: "Env \<Rightarrow> ConversationContext \<Rightarrow> string list \<Rightarrow> Part list" where
  "spec_resolvedParts env ctx references =
     List.map_filter
       (\<lambda>r. case resolveImageRef env ctx r of Inr part \<Rightarrow> Some part | Inl _ \<Rightarrow> None)
       references"

definition spec_failedReferences :: "Env \<Rightarrow> ConversationContext \<Rightarrow> string list \<Rightarrow> (string \<times> exn) list" where
  "spec_failedReferences env ctx references =
     List.map_filter
       (\<lambda>r. case resolveImageRef env ctx r of Inl e \<Rightarrow> Some (r, e) | Inr _ \<Rightarrow> None)
       references"

text \<open>
  The run of the scenario of the specification: the ratio \<open>1:1\<close> is configured for
  session \<open>s\<close>, an image is generated for the prompt \<open>A\<close>, and the registry after the two
  calls is the one a second generate call starts from.
\<close>

definition scenarioRegistry :: Registry where
  "scenarioRegistry =
     fst (run [(sampleEnv, set_aspect_ratio_call ''1:1'' (Some ''s'')),
               (sampleEnv, gemini_generate_image_call ''A'' None None (Some ''s'') False [])])"

text \<open>The sample environment with a chat backend that fails.\<close>

definition failingChatEnv :: Env where
  "failingChatEnv = sampleEnv\<lparr>sendMessage := (\<lambda>system_prompt transcript parts. Inl ''503 Service Unavailable'')\<rparr>"

text \<open>
  The aggregation of a streamed response in the words of the specification. A part
  carries an image payload when its \<open>inlineData.data\<close> is present and not empty; its text
  fragment is its text when it carries no image payload (a part that carries an image
  contributes no text), and the parts of a chunk are those of its first candidate. The
  text of the stream is the concatenation of the text fragments of every chunk in arrival
  order; the image of the stream is the image of the last chunk that carries one, the
  image of a chunk being its last image payload.
\<close>

definition spec_imagePayload :: "ResponsePart \<Rightarrow> string option" where
  "spec_imagePayload part = (if truthy (inlineData_data part) then inlineData_data part else None)"

definition spec_textFragment :: "ResponsePart \<Rightarrow> string" where
  "spec_textFragment part =
     (if truthy (inlineData_data part) then []
      else case part_text part of Some t \<Rightarrow> t | None \<Rightarrow> [])"

definition spec_chunkText :: "Chunk \<Rightarrow> string" where
  "spec_chunkText chunk = concat (map spec_textFragment (chunkParts chunk))"

definition spec_chunkImage :: "Chunk \<Rightarrow> string option" where
  "spec_chunkImage chunk =
     (case List.map_filter spec_imagePayload (chunkParts chunk) of
        [] \<Rightarrow> None
      | payloads \<Rightarrow> Some (last payloads))"

definition spec_streamText :: "Chunk list \<Rightarrow> string" where
  "spec_streamText chunks = concat (map spec_chunkText chunks)"

definition spec_streamImage :: "Chunk list \<Rightarrow> string option" where
  "spec_streamImage chunks =
     (case filter (\<lambda>chunk. spec_chunkImage chunk \<noteq> None) chunks of
        [] \<Rightarrow> None
      | bearing \<Rightarrow> spec_chunkImage (last bearing))"

text \<open>The text of a part as it stands, whatever else the part carries.\<close>

definition spec_partText :: "ResponsePart \<Rightarrow> string" where
  "spec_partText part = (case part_text part of Some t \<Rightarrow> t | None \<Rightarrow> [])"

text \<open>
  A stream of four chunks for the closed example (the second has two candidates, the
  last none), and the sample environment with a backend that answers with text only.
\<close>

definition sampleChunks :: "Chunk list" where
  "sampleChunks =
     [[[\<lparr>inlineData_data = None, part_text = Some ''Here ''\<rparr>,
        \<lparr>inlineData_data = Some ''QUFB'', part_text = None\<rparr>]],
      [[\<lparr>inlineData_data = Some ''QkJC'', part_text = None\<rparr>],
       [\<lparr>inlineData_data = None, part_text = Some ''second candidate''\<rparr>]],
      [[\<lparr>inlineData_data = None, part_text = Some ''you go''\<rparr>]],
      []]"

definition textOnlyEnv :: Env where
  "textOnlyEnv =
     sampleEnv\<lparr>JSON_parse :=
       (\<lambda>body. Some [[[\<lparr>inlineData_data = None, part_text = Some ''I cannot draw that''\<rparr>]]])\<rparr>"

section \<open>Verification\<close>

text \<open>The definitions unfolded when a closed example is evaluated.\<close>

lemmas model_defs = gemini_generate_image_def generateWithRatio_def generateParts_def historyParts_def finalPrompt_def
  callGeminiImageAPI_def aggregateChunks_def chunkStep_def chunkParts_def partStep_def truthy_def
  resolveAspectRatio_def getOrCreateContext_def newContext_def conversationIdOrDefault_def
  loadReferenceImage_def imageToBase64_def resolveAgainstCwd_def generateOutputPath_def defaultOutputDir_def
  saveImageFromBuffer_def addImageToHistory_def generateImageId_def MAX_IMAGE_HISTORY_def MAX_REFERENCE_IMAGES_def
  VALID_ASPECT_RATIOS_def sampleEnv_def sampleFiles_def lastSegment_def show_nat.simps Let_def
  set_aspect_ratio_def

subsection \<open>Media store: bound and eviction order\<close>

lemma imageHistory_addImageToHistory:
  "imageHistory (addImageToHistory ctx e) = pushBounded (imageHistory ctx) e"
  by (cases "imageHistory ctx") (auto simp: addImageToHistory_def pushBounded_def MAX_IMAGE_HISTORY_def Let_def)

lemma keepLast_snoc:
  "drop (length (rs @ [e]) - 10) (rs @ [e]) = pushBounded (drop (length rs - 10) rs) e"
proof (cases "length rs \<ge> 10")
  case True
  then have eq: "Suc (length rs - 10) = length rs - 9" by arith
  have "tl (drop (length rs - 10) rs) = drop (length rs - 9) rs"
    by (simp add: tl_drop drop_Suc[symmetric] drop_tl eq del: drop_Suc)
  with True show ?thesis by (simp add: pushBounded_def Suc_diff_le)
next
  case False
  then show ?thesis by (simp add: pushBounded_def)
qed

lemma generateWithRatio_effect:
  assumes "generateWithRatio env c ctx prompt output_path use refs ratio = (resp, ctx1, events)"
  shows "(ctx1 = ctx \<and> (\<forall>cid. appendedTo cid events = []) \<and> (\<forall>a b d e. resp \<noteq> ImageGenerated a b d e))
       \<or> (\<exists>entry. ctx1 = addImageToHistory ctx entry \<and> appendedTo c events = [entry]
             \<and> (\<forall>cid. cid \<noteq> c \<longrightarrow> appendedTo cid events = [])
             \<and> (\<exists>a b d e. resp = ImageGenerated a b d e))"
  using assms unfolding generateWithRatio_def Let_def
  by (auto split: sum.splits if_splits option.splits)

lemma editWithRatio_effect:
  assumes "editWithRatio env c ctx image_path edit_prompt output_path refs ratio = (resp, ctx1, events)"
  shows "(ctx1 = ctx \<and> (\<forall>cid. appendedTo cid events = []) \<and> (\<forall>a b d e f. resp \<noteq> ImageEdited a b d e f))
       \<or> (\<exists>entry. ctx1 = addImageToHistory ctx entry \<and> appendedTo c events = [entry]
             \<and> (\<forall>cid. cid \<noteq> c \<longrightarrow> appendedTo cid events = [])
             \<and> (\<exists>a b d e f. resp = ImageEdited a b d e f))"
  using assms unfolding editWithRatio_def Let_def
  by (auto split: sum.splits if_splits option.splits prod.splits)


lemma getOrCreateContext_same:
  "fst (getOrCreateContext reg c) c = Some (snd (getOrCreateContext reg c))"
  by (simp add: getOrCreateContext_def split: option.splits)

lemma getOrCreateContext_history:
  "sessionHistory (fst (getOrCreateContext reg c)) cid = sessionHistory reg cid"
  by (simp add: getOrCreateContext_def sessionHistory_def newContext_def split: option.splits)

lemma getOrCreateContext_ctx_history:
  "imageHistory (snd (getOrCreateContext reg c)) = sessionHistory reg c"
  by (simp add: getOrCreateContext_def sessionHistory_def newContext_def split: option.splits)

lemma sessionHistory_upd:
  "sessionHistory (reg(c \<mapsto> ctx)) cid = (if cid = c then imageHistory ctx else sessionHistory reg cid)"
  by (simp add: sessionHistory_def)

lemma session_update_effect:
  assumes "(ctx1 = ctx \<and> (\<forall>cid. appendedTo cid events = []) \<and> \<not> ok)
       \<or> (\<exists>entry. ctx1 = addImageToHistory ctx entry \<and> appendedTo c events = [entry]
             \<and> (\<forall>cid. cid \<noteq> c \<longrightarrow> appendedTo cid events = []) \<and> ok)"
    and "ctx = snd (getOrCreateContext reg c)"
    and "reg1 = (fst (getOrCreateContext reg c))(c \<mapsto> ctx1)"
  shows "(appendedTo cid events = [] \<and> sessionHistory reg1 cid = sessionHistory reg cid \<and> \<not> (ok \<and> c = cid))
       \<or> (\<exists>e. appendedTo cid events = [e]
             \<and> sessionHistory reg1 cid = pushBounded (sessionHistory reg cid) e \<and> ok \<and> c = cid)"
  using assms(1)
proof
  assume "ctx1 = ctx \<and> (\<forall>cid. appendedTo cid events = []) \<and> \<not> ok"
  then show ?thesis
    using assms(2,3)
    by (simp add: sessionHistory_upd getOrCreateContext_history getOrCreateContext_ctx_history)
next
  assume "\<exists>entry. ctx1 = addImageToHistory ctx entry \<and> appendedTo c events = [entry]
             \<and> (\<forall>cid. cid \<noteq> c \<longrightarrow> appendedTo cid events = []) \<and> ok"
  then obtain entry where a: "ctx1 = addImageToHistory ctx entry" "appendedTo c events = [entry]"
      "\<forall>cid. cid \<noteq> c \<longrightarrow> appendedTo cid events = []" "ok"
    by blast
  show ?thesis
  proof (cases "cid = c")
    case True
    with a assms(2,3) show ?thesis
      by (simp add: sessionHistory_upd imageHistory_addImageToHistory getOrCreateContext_ctx_history)
  next
    case False
    with a assms(2,3) show ?thesis
      by (auto simp add: sessionHistory_upd getOrCreateContext_history)
  qed
qed

lemma resolveAspectRatio_Inl:
  "resolveAspectRatio aspect_ratio ctx = Inl r \<Longrightarrow>
     (\<exists>bad. r = InvalidAspectRatio bad) \<or> r = AspectRatioNotSpecified"
  by (auto simp: resolveAspectRatio_def split: if_splits option.splits)

lemma succeededOn_generate:
  "succeededOn cid (gemini_generate_image_call p a out c u r, resp, events)
     = ((\<exists>x y z w. resp = ImageGenerated x y z w) \<and> conversationIdOrDefault c = cid)"
  by (cases resp) auto

lemma succeededOn_edit:
  "succeededOn cid (gemini_edit_image_call i p a out c r, resp, events)
     = ((\<exists>x y z w v. resp = ImageEdited x y z w v) \<and> conversationIdOrDefault c = cid)"
  by (cases resp) auto

lemma gemini_generate_image_effect:
  assumes "gemini_generate_image env reg prompt aspect_ratio output_path conversation_id use refs = (resp, reg1, events)"
  shows "stepEffect cid reg reg1
           (gemini_generate_image_call prompt aspect_ratio output_path conversation_id use refs, resp, events)"
proof -
  define c where "c = conversationIdOrDefault conversation_id"
  define ctx where "ctx = snd (getOrCreateContext reg c)"
  show ?thesis
  proof (cases "resolveAspectRatio aspect_ratio ctx")
    case (Inl r)
    then have "resp = r" "reg1 = fst (getOrCreateContext reg c)" "events = []"
      using assms by (simp_all add: gemini_generate_image_def Let_def c_def ctx_def)
    then show ?thesis
      using resolveAspectRatio_Inl[OF Inl]
      by (auto simp add: stepEffect_def getOrCreateContext_history succeededOn_generate succeededOn_edit)
  next
    case (Inr ratio)
    obtain resp' ctx1 events' where g: "generateWithRatio env c ctx prompt output_path use refs ratio = (resp', ctx1, events')"
      by (cases "generateWithRatio env c ctx prompt output_path use refs ratio") auto
    with Inr have r: "resp = resp'" "reg1 = (fst (getOrCreateContext reg c))(c \<mapsto> ctx1)" "events = events'"
      using assms by (simp_all add: gemini_generate_image_def Let_def c_def ctx_def)
    have "(ctx1 = ctx \<and> (\<forall>cid. appendedTo cid events = []) \<and> \<not> (\<exists>a b d e. resp = ImageGenerated a b d e))
       \<or> (\<exists>entry. ctx1 = addImageToHistory ctx entry \<and> appendedTo c events = [entry]
             \<and> (\<forall>cid. cid \<noteq> c \<longrightarrow> appendedTo cid events = []) \<and> (\<exists>a b d e. resp = ImageGenerated a b d e))"
      using generateWithRatio_effect[OF g] r by simp
    from session_update_effect[OF this ctx_def r(2), of cid] show ?thesis
      unfolding stepEffect_def succeededOn_generate succeededOn_edit c_def snd_conv by blast
  qed
qed

lemma gemini_edit_image_effect:
  assumes "gemini_edit_image env reg image_path edit_prompt aspect_ratio output_path conversation_id refs = (resp, reg1, events)"
  shows "stepEffect cid reg reg1
           (gemini_edit_image_call image_path edit_prompt aspect_ratio output_path conversation_id refs, resp, events)"
proof -
  define c where "c = conversationIdOrDefault conversation_id"
  define ctx where "ctx = snd (getOrCreateContext reg c)"
  show ?thesis
  proof (cases "resolveAspectRatio aspect_ratio ctx")
    case (Inl r)
    then have "resp = r" "reg1 = fst (getOrCreateContext reg c)" "events = []"
      using assms by (simp_all add: gemini_edit_image_def Let_def c_def ctx_def)
    then show ?thesis
      using resolveAspectRatio_Inl[OF Inl]
      by (auto simp add: stepEffect_def getOrCreateContext_history succeededOn_generate succeededOn_edit)
  next
    case (Inr ratio)
    obtain resp' ctx1 events' where g: "editWithRatio env c ctx image_path edit_prompt output_path refs ratio = (resp', ctx1, events')"
      by (cases "editWithRatio env c ctx image_path edit_prompt output_path refs ratio") auto
    with Inr have r: "resp = resp'" "reg1 = (fst (getOrCreateContext reg c))(c \<mapsto> ctx1)" "events = events'"
      using assms by (simp_all add: gemini_edit_image_def Let_def c_def ctx_def)
    have "(ctx1 = ctx \<and> (\<forall>cid. appendedTo cid events = []) \<and> \<not> (\<exists>a b d e f. resp = ImageEdited a b d e f))
       \<or> (\<exists>entry. ctx1 = addImageToHistory ctx entry \<and> appendedTo c events = [entry]
             \<and> (\<forall>cid. cid \<noteq> c \<longrightarrow> appendedTo cid events = []) \<and> (\<exists>a b d e f. resp = ImageEdited a b d e f))"
      using editWithRatio_effect[OF g] r by simp
    from session_update_effect[OF this ctx_def r(2), of cid] show ?thesis
      unfolding stepEffect_def succeededOn_generate succeededOn_edit c_def snd_conv by blast
  qed
qed

lemma gemini_chat_effect:
  assumes "gemini_chat env reg message conversation_id system_prompt images = (resp, reg1, events)"
  shows "stepEffect cid reg reg1 (gemini_chat_call message conversation_id system_prompt images, resp, events)"
  using assms unfolding gemini_chat_def Let_def
  by (auto simp: stepEffect_def sessionHistory_upd getOrCreateContext_history getOrCreateContext_ctx_history
           split: sum.splits)

lemma callTool_effect:
  assumes "callTool env reg call = (resp, reg1, events)" and "call \<noteq> clear_conversation_call cid"
  shows "stepEffect cid reg reg1 (call, resp, events)"
proof (cases call)
  case (gemini_chat_call m c s i)
  then show ?thesis using assms gemini_chat_effect by simp
next
  case (gemini_generate_image_call p a out c u r)
  then show ?thesis using assms gemini_generate_image_effect by simp
next
  case (gemini_edit_image_call i p a out c r)
  then show ?thesis using assms gemini_edit_image_effect by simp
next
  case (get_image_history_call c)
  then show ?thesis using assms
    by (auto simp: get_image_history_def stepEffect_def split: option.splits if_splits)
next
  case (clear_conversation_call c)
  then show ?thesis using assms
    by (auto simp: clear_conversation_def stepEffect_def sessionHistory_def)
next
  case (set_aspect_ratio_call a c)
  then show ?thesis using assms
    by (auto simp: set_aspect_ratio_def stepEffect_def Let_def sessionHistory_upd
          getOrCreateContext_history getOrCreateContext_ctx_history split: if_splits)
next
  case (unknown_tool_call n)
  then show ?thesis using assms by (auto simp: stepEffect_def)
qed

lemma callTool_clear:
  "callTool env reg (clear_conversation_call cid) = (resp, reg1, events) \<Longrightarrow> sessionHistory reg1 cid = []"
  by (auto simp: clear_conversation_def sessionHistory_def)

lemma run_snoc: "run (inputs @ [input]) = runStep (run inputs) input"
  by (simp add: run_def)

lemma sessionRecords_snoc:
  "sessionRecords cid (steps @ [step]) =
     (if clearsSession cid step then [] else sessionRecords cid steps @ appendedTo cid (snd (snd step)))"
  by (simp add: sessionRecords_def)

lemma sessionSuccesses_snoc:
  "sessionSuccesses cid (steps @ [step]) =
     (if clearsSession cid step then 0
      else if succeededOn cid step then sessionSuccesses cid steps + 1 else sessionSuccesses cid steps)"
  by (simp add: sessionSuccesses_def)

lemma run_invariant:
  "sessionHistory (fst (run inputs)) cid
     = drop (length (sessionRecords cid (snd (run inputs))) - 10) (sessionRecords cid (snd (run inputs)))
   \<and> length (sessionRecords cid (snd (run inputs))) = sessionSuccesses cid (snd (run inputs))"
proof (induction inputs rule: rev_induct)
  case Nil
  then show ?case
    by (simp add: run_def sessionHistory_def sessionRecords_def sessionSuccesses_def)
next
  case (snoc input inputs)
  obtain reg steps where rs: "run inputs = (reg, steps)" by (cases "run inputs") auto
  obtain resp reg1 events where ct: "callTool (fst input) reg (snd input) = (resp, reg1, events)"
    by (cases "callTool (fst input) reg (snd input)") auto
  have r1: "run (inputs @ [input]) = (reg1, steps @ [(snd input, resp, events)])"
    by (simp add: run_snoc rs runStep_def ct)
  show ?case
  proof (cases "snd input = clear_conversation_call cid")
    case True
    then have "sessionHistory reg1 cid = []" using ct callTool_clear by metis
    with True show ?thesis
      by (simp add: r1 sessionRecords_snoc sessionSuccesses_snoc clearsSession_def)
  next
    case False
    define records where "records = sessionRecords cid steps"
    have ih: "sessionHistory reg cid = drop (length records - 10) records"
        "length records = sessionSuccesses cid steps"
      using snoc rs by (simp_all add: records_def)
    have nc: "\<not> clearsSession cid (snd input, resp, events)"
      using False by (simp add: clearsSession_def)
    from callTool_effect[OF ct False]
    consider (same) "appendedTo cid events = []" "sessionHistory reg1 cid = sessionHistory reg cid"
        "\<not> succeededOn cid (snd input, resp, events)"
      | (more) e where "appendedTo cid events = [e]"
        "sessionHistory reg1 cid = pushBounded (sessionHistory reg cid) e"
        "succeededOn cid (snd input, resp, events)"
      by (auto simp: stepEffect_def)
    then show ?thesis
    proof cases
      case same
      with ih nc show ?thesis
        by (simp add: r1 sessionRecords_snoc sessionSuccesses_snoc records_def)
    next
      case more
      have "sessionHistory reg1 cid = drop (length (records @ [e]) - 10) (records @ [e])"
        using more(2) ih(1) by (simp only: keepLast_snoc)
      with more ih(2) nc show ?thesis
        by (simp add: r1 sessionRecords_snoc sessionSuccesses_snoc records_def)
    qed
  qed
qed

text \<open>
  Claim C1. Start the server with no session and let it handle any sequence of tool
  calls, each in any environment. Then, after every call, for every session key: the
  media history holds at most 10 records; the records handed to \<open>addImageToHistory\<close>
  for the session since it was created (or last cleared) are as many as the successful
  generate and edit calls on it, say N; the history has \<open>min N 10\<close> records; and it
  is the list of those records in call order without its first \<open>N - 10\<close> elements, so the
  oldest records are the ones evicted.
\<close>

theorem media_history_bounded_fifo:
  "length (sessionHistory (fst (run inputs)) cid) \<le> MAX_IMAGE_HISTORY
   \<and> length (sessionRecords cid (snd (run inputs))) = sessionSuccesses cid (snd (run inputs))
   \<and> length (sessionHistory (fst (run inputs)) cid)
       = min (sessionSuccesses cid (snd (run inputs))) MAX_IMAGE_HISTORY
   \<and> sessionHistory (fst (run inputs)) cid
       = drop (sessionSuccesses cid (snd (run inputs)) - MAX_IMAGE_HISTORY)
           (sessionRecords cid (snd (run inputs)))"
proof -
  have inv: "sessionHistory (fst (run inputs)) cid
     = drop (length (sessionRecords cid (snd (run inputs))) - 10) (sessionRecords cid (snd (run inputs)))"
    "length (sessionRecords cid (snd (run inputs))) = sessionSuccesses cid (snd (run inputs))"
    using run_invariant[of inputs cid] by simp_all
  have "length (sessionHistory (fst (run inputs)) cid) = min (sessionSuccesses cid (snd (run inputs))) 10"
    by (subst inv(1)) (simp add: inv(2))
  with inv show ?thesis by (simp add: MAX_IMAGE_HISTORY_def)
qed

lemma sampleRun_successes: "sessionSuccesses ''s'' (snd (run sampleRun)) = 11"
  by (simp add: sampleRun_def run_def runStep_def sessionSuccesses_def clearsSession_def model_defs)

lemma sampleRun_prompts:
  "map entry_prompt (sessionRecords ''s'' (snd (run sampleRun)))
     = [''a'', ''b'', ''c'', ''d'', ''e'', ''f'', ''g'', ''h'', ''i'', ''j'', ''k'']"
  by (simp add: sampleRun_def run_def runStep_def sessionRecords_def clearsSession_def model_defs)

theorem media_history_bounded_fifo_witness:
  "sessionSuccesses ''s'' (snd (run sampleRun)) = 11
   \<and> length (sessionHistory (fst (run sampleRun)) ''s'') = 10
   \<and> map entry_prompt (sessionHistory (fst (run sampleRun)) ''s'')
       = [''b'', ''c'', ''d'', ''e'', ''f'', ''g'', ''h'', ''i'', ''j'', ''k'']"
  using media_history_bounded_fifo[of sampleRun "''s''"] sampleRun_prompts
  by (simp add: sampleRun_successes MAX_IMAGE_HISTORY_def drop_map[symmetric] del: drop_map)

subsection \<open>Reference lookup\<close>

lemma digit_nth:
  "d < 10 \<Longrightarrow> isDigit (''0123456789'' ! d) \<and> digitValue (''0123456789'' ! d) = d"
proof -
  assume "d < 10"
  then have "d \<in> {0, 1, 2, 3, 4, 5, 6, 7, 8, 9}"
    by auto
  then show ?thesis
    by (auto simp add: isDigit_def digitValue_def)
qed

lemma parseInt_snoc: "parseInt (ds @ [c]) = 10 * parseInt ds + digitValue c"
  by (simp add: parseInt_def)

lemma show_nat_digits:
  "show_nat n \<noteq> [] \<and> list_all isDigit (show_nat n) \<and> parseInt (show_nat n) = n"
proof (induction n rule: show_nat.induct)
  case (1 n)
  show ?case
  proof (cases "n < 10")
    case True
    then show ?thesis
      using digit_nth[of n] by (subst (1 2 3) show_nat.simps) (simp add: parseInt_def)
  next
    case False
    with 1 have ih: "show_nat (n div 10) \<noteq> []" "list_all isDigit (show_nat (n div 10))"
        "parseInt (show_nat (n div 10)) = n div 10"
      by simp_all
    have d: "isDigit (''0123456789'' ! (n mod 10))" "digitValue (''0123456789'' ! (n mod 10)) = n mod 10"
      using digit_nth[of "n mod 10"] by simp_all
    show ?thesis
      using False ih d by (subst (1 2 3) show_nat.simps) (simp add: parseInt_snoc)
  qed
qed

lemma getImageFromHistory_digits:
  assumes "digits \<noteq> []" "list_all isDigit digits"
  shows "getImageFromHistory ctx (''history:'' @ digits)
     = (if parseInt digits < length (imageHistory ctx)
        then Some (imageHistory ctx ! parseInt digits) else None)"
  using assms by (simp add: getImageFromHistory_def matchHistoryRef_def Let_def)

lemma resolveImageRef_path:
  "getImageFromHistory ctx reference = None \<Longrightarrow>
   resolveImageRef env ctx reference
     = (case spec_resolveFilePath env reference of
          Some p \<Rightarrow> map_sum id (InlineData ''image/png'') (imageToBase64 env p)
        | None \<Rightarrow> Inl (SystemError (the (fs_access env (altPathOf env reference)))))"
  by (auto simp: resolveImageRef_def spec_resolveFilePath_def split: option.splits)

lemma resolveSubject_path:
  "getImageFromHistory ctx reference = None \<Longrightarrow>
   resolveSubject env ctx reference
     = (case spec_resolveFilePath env reference of
          Some p \<Rightarrow> map_sum id (Pair p) (imageToBase64 env p)
        | None \<Rightarrow> Inl (ImageFileNotFound reference))"
  by (auto simp: resolveSubject_def spec_resolveFilePath_def split: option.splits)

text \<open>
  Claim C3. The lookup of \<open>last\<close> returns the last record of the media history, and
  nothing exactly when the history is empty. The lookup of \<open>history:K\<close>, for K written in
  decimal (and for any non-empty string of digits, which is read as its decimal value),
  returns the record at the zero-based position K when K is below the length and nothing
  otherwise; an empty, negative or non-numeric suffix is not looked up at all. Whenever
  the history does not resolve a reference, the resolvers of the chat images, of the edit
  references and of the edit subject go on with the reference as a file path: the outcome
  is that of the path resolution, never an error about the syntax of the reference.
\<close>

theorem history_reference_lookup:
  "getImageFromHistory ctx ''last''
     = (if imageHistory ctx = [] then None else Some (last (imageHistory ctx)))
   \<and> getImageFromHistory ctx (''history:'' @ show_nat K)
     = (if K < length (imageHistory ctx) then Some (imageHistory ctx ! K) else None)
   \<and> (digits \<noteq> [] \<and> list_all isDigit digits \<longrightarrow>
       getImageFromHistory ctx (''history:'' @ digits)
         = (if parseInt digits < length (imageHistory ctx)
            then Some (imageHistory ctx ! parseInt digits) else None))
   \<and> (suffix = [] \<or> \<not> list_all isDigit suffix \<longrightarrow>
       getImageFromHistory ctx (''history:'' @ suffix) = None)
   \<and> (getImageFromHistory ctx reference = None \<longrightarrow>
       resolveImageRef env ctx reference
         = (case spec_resolveFilePath env reference of
              Some p \<Rightarrow> map_sum id (InlineData ''image/png'') (imageToBase64 env p)
            | None \<Rightarrow> Inl (SystemError (the (fs_access env (altPathOf env reference)))))
       \<and> resolveSubject env ctx reference
         = (case spec_resolveFilePath env reference of
              Some p \<Rightarrow> map_sum id (Pair p) (imageToBase64 env p)
            | None \<Rightarrow> Inl (ImageFileNotFound reference)))"
proof -
  have a: "getImageFromHistory ctx ''last''
     = (if imageHistory ctx = [] then None else Some (last (imageHistory ctx)))"
    by (simp add: getImageFromHistory_def)
  have b: "getImageFromHistory ctx (''history:'' @ show_nat K)
     = (if K < length (imageHistory ctx) then Some (imageHistory ctx ! K) else None)"
    using getImageFromHistory_digits[of "show_nat K" ctx] show_nat_digits[of K] by simp
  have c: "suffix = [] \<or> \<not> list_all isDigit suffix \<Longrightarrow>
       getImageFromHistory ctx (''history:'' @ suffix) = None"
    by (auto simp add: getImageFromHistory_def matchHistoryRef_def)
  show ?thesis
    using a b c getImageFromHistory_digits[of digits ctx] resolveImageRef_path[of ctx reference env]
      resolveSubject_path[of ctx reference env]
    by blast
qed

lemma show_nat_2: "show_nat 2 = ''2''"
  by (simp add: show_nat.simps)

theorem history_reference_lookup_witness:
  "getImageFromHistory sampleContext ''last'' = Some (sampleEntry ''z'')
   \<and> getImageFromHistory sampleContext ''history:2'' = Some (sampleEntry ''z'')
   \<and> getImageFromHistory sampleContext ''history:001'' = Some (sampleEntry ''y'')
   \<and> getImageFromHistory sampleContext ''history:-1'' = None
   \<and> resolveSubject sampleEnv sampleContext ''history:3''
       = Inl (ImageFileNotFound ''history:3'')"
proof -
  have d: "''001'' \<noteq> [] \<and> list_all isDigit ''001''" by (simp add: isDigit_def)
  have s: "''-1'' = [] \<or> \<not> list_all isDigit ''-1''" by (simp add: isDigit_def)
  have n: "getImageFromHistory sampleContext ''history:3'' = None"
    by (simp add: getImageFromHistory_def matchHistoryRef_def isDigit_def parseInt_def digitValue_def
          sampleContext_def)
  have p: "spec_resolveFilePath sampleEnv ''history:3'' = None"
    by (simp add: spec_resolveFilePath_def resolveAgainstCwd_def altPathOf_def sampleEnv_def sampleFiles_def
          lastSegment_def)
  have l: "imageHistory sampleContext = [sampleEntry ''x'', sampleEntry ''y'', sampleEntry ''z'']"
    by (simp add: sampleContext_def)
  have v: "parseInt ''001'' = 1"
    by (simp add: parseInt_def digitValue_def)
  note th = history_reference_lookup[of sampleContext 2 "''001''" "''-1''" "''history:3''" sampleEnv]
  from th have "getImageFromHistory sampleContext ''last'' = Some (sampleEntry ''z'')"
    by (simp add: l)
  moreover from th have "getImageFromHistory sampleContext ''history:2'' = Some (sampleEntry ''z'')"
    by (simp add: l show_nat_2)
  moreover from th d have "getImageFromHistory sampleContext ''history:001'' = Some (sampleEntry ''y'')"
    by (simp add: l v)
  moreover from th s have "getImageFromHistory sampleContext ''history:-1'' = None"
    by simp
  moreover from th n p have "resolveSubject sampleEnv sampleContext ''history:3''
       = Inl (ImageFileNotFound ''history:3'')"
    by simp
  ultimately show ?thesis by blast
qed

subsection \<open>Ratio resolution\<close>

lemma resolveAspectRatio_absent:
  "resolveAspectRatio None ctx
     = (case aspectRatio ctx of None \<Rightarrow> Inl AspectRatioNotSpecified | Some r \<Rightarrow> Inr r)"
  by (simp add: resolveAspectRatio_def truthy_def)

lemma resolveAspectRatio_explicit:
  "explicit \<noteq> [] \<Longrightarrow>
   resolveAspectRatio (Some explicit) ctx
     = (if explicit \<in> set VALID_ASPECT_RATIOS then Inr explicit else Inl (InvalidAspectRatio explicit))"
  by (simp add: resolveAspectRatio_def truthy_def)

lemma ratio_error_no_backend:
  assumes "resolveAspectRatio aspect_ratio (callContext conversations conversation_id) = Inl response"
  shows "gemini_generate_image env conversations prompt aspect_ratio output_path conversation_id
           use_image_history reference_images
         = (response, fst (getOrCreateContext conversations (conversationIdOrDefault conversation_id)), [])"
    and "gemini_edit_image env conversations image_path edit_prompt aspect_ratio output_path
           conversation_id reference_images
         = (response, fst (getOrCreateContext conversations (conversationIdOrDefault conversation_id)), [])"
  using assms by (simp_all add: gemini_generate_image_def gemini_edit_image_def callContext_def Let_def)

text \<open>
  Claim C2 fails on the code for the explicit ratio \<open>""\<close>, a string that is not one of
  the ten ratios: the validation is guarded by the truthiness of the argument, \<open>??\<close>
  keeps the empty string, and the test against \<open>null\<close> lets it pass, so both handlers
  invoke the backend with the ratio \<open>""\<close> and ignore the configured default, where
  \<open>set_aspect_ratio\<close> rejects the same string.
\<close>

theorem empty_explicit_ratio_reaches_backend:
  "'''' \<notin> set VALID_ASPECT_RATIOS
   \<and> resolveAspectRatio (Some '''') (callContext configuredRegistry None) = Inr ''''
   \<and> backendRequests (snd (snd (gemini_generate_image sampleEnv configuredRegistry ''A cat''
        (Some '''') None None False [])))
       = [([TextPart ''A cat''], '''')]
   \<and> backendRequests (snd (snd (gemini_edit_image sampleEnv configuredRegistry ''ref.png'' ''bluer''
        (Some '''') None None [])))
       = [([TextPart (editingPrompt ''bluer''), InlineData ''image/png'' ''UkVG''], '''')]
   \<and> fst (set_aspect_ratio configuredRegistry '''' None) = InvalidAspectRatio ''''"
proof -
  have "resolveAspectRatio (Some '''') (callContext configuredRegistry None) = Inr ''''"
    by (simp add: resolveAspectRatio_def truthy_def)
  moreover have "backendRequests (snd (snd (gemini_generate_image sampleEnv configuredRegistry ''A cat''
        (Some '''') None None False [])))
       = [([TextPart ''A cat''], '''')]"
    by (simp add: configuredRegistry_def model_defs)
  moreover have "backendRequests (snd (snd (gemini_edit_image sampleEnv configuredRegistry ''ref.png'' ''bluer''
        (Some '''') None None [])))
       = [([TextPart (editingPrompt ''bluer''), InlineData ''image/png'' ''UkVG''], '''')]"
    by (simp add: configuredRegistry_def model_defs gemini_edit_image_def editWithRatio_def editParts_def
          resolveSubject_def getImageFromHistory_def editOutputPath_def)
  moreover have "fst (set_aspect_ratio configuredRegistry '''' None) = InvalidAspectRatio ''''"
    by (simp add: set_aspect_ratio_def VALID_ASPECT_RATIOS_def)
  ultimately show ?thesis
    by (simp add: VALID_ASPECT_RATIOS_def)
qed

subsection \<open>Request assembly\<close>

lemma resolveImageRefs_parts:
  "fst (resolveImageRefs env ctx references) = spec_resolvedParts env ctx references"
  by (induction references)
     (simp_all add: spec_resolvedParts_def split: sum.splits)

lemma resolveImageRefs_failed:
  "snd (resolveImageRefs env ctx references) = spec_failedReferences env ctx references"
  by (induction references)
     (simp_all add: spec_failedReferences_def split: sum.splits)

lemma loadReferenceImages_parts:
  "fst (loadReferenceImages env reference_images) = spec_manualReferenceParts env reference_images"
  by (induction reference_images)
     (simp_all add: spec_manualReferenceParts_def loadReferenceImage_def imageToBase64_def
        split: sum.splits)

lemma recentHistoryParts_drop:
  "spec_recentHistoryParts ctx
     = map (\<lambda>img. InlineData (mimeType img) (base64Data img))
         (drop (length (imageHistory ctx) - MAX_REFERENCE_IMAGES) (imageHistory ctx))"
  by (simp add: spec_recentHistoryParts_def MAX_REFERENCE_IMAGES_def take_rev)

lemma generateWithRatio_requests:
  "backendRequests (snd (snd (generateWithRatio env cid ctx prompt output_path use_image_history
      reference_images ratio)))
     = [(generateParts env ctx prompt use_image_history reference_images, ratio)]"
  by (simp add: generateWithRatio_def Let_def split: sum.splits option.splits)

lemma gemini_generate_image_requests:
  "backendRequests (snd (snd (gemini_generate_image env conversations prompt aspect_ratio output_path
      conversation_id use_image_history reference_images)))
     = (case resolveAspectRatio aspect_ratio (callContext conversations conversation_id) of
          Inl _ \<Rightarrow> []
        | Inr ratio \<Rightarrow>
            [(generateParts env (callContext conversations conversation_id) prompt use_image_history
                reference_images, ratio)])"
proof (cases "resolveAspectRatio aspect_ratio (callContext conversations conversation_id)")
  case (Inl r)
  then show ?thesis
    by (simp add: gemini_generate_image_def callContext_def Let_def)
next
  case (Inr ratio)
  obtain response ctx1 events where g:
    "generateWithRatio env (conversationIdOrDefault conversation_id)
       (callContext conversations conversation_id) prompt output_path use_image_history
       reference_images ratio = (response, ctx1, events)"
    by (cases "generateWithRatio env (conversationIdOrDefault conversation_id)
       (callContext conversations conversation_id) prompt output_path use_image_history
       reference_images ratio") auto
  have "backendRequests events
     = [(generateParts env (callContext conversations conversation_id) prompt use_image_history
           reference_images, ratio)]"
    using generateWithRatio_requests[of env "conversationIdOrDefault conversation_id"
        "callContext conversations conversation_id" prompt output_path use_image_history
        reference_images ratio]
    by (simp add: g)
  with Inr g show ?thesis
    by (simp add: gemini_generate_image_def callContext_def Let_def)
qed

text \<open>
  Claim C4. A generate call sends no request when the ratio does not resolve, and
  otherwise exactly one, whose parts are, in this order: the manual reference images that
  could be read, in the order given; when \<open>use_image_history\<close> is set and the media
  history is not empty, the most recent up to three records of the history (at least one,
  at most three); and one text part, which is the prompt followed by the consistency
  instruction under that same condition and the prompt alone otherwise.
\<close>

theorem generate_request_parts:
  "backendRequests (snd (snd (gemini_generate_image env conversations prompt aspect_ratio output_path
      conversation_id use_image_history reference_images)))
     = (case resolveAspectRatio aspect_ratio (callContext conversations conversation_id) of
          Inl _ \<Rightarrow> []
        | Inr ratio \<Rightarrow>
            [(spec_manualReferenceParts env reference_images
              @ (if use_image_history \<and> imageHistory (callContext conversations conversation_id) \<noteq> []
                 then spec_recentHistoryParts (callContext conversations conversation_id) else [])
              @ [TextPart
                   (if use_image_history \<and> imageHistory (callContext conversations conversation_id) \<noteq> []
                    then prompt @ CONSISTENCY_INSTRUCTION else prompt)],
              ratio)])
   \<and> length (spec_recentHistoryParts (callContext conversations conversation_id)) \<le> 3
   \<and> (spec_recentHistoryParts (callContext conversations conversation_id) = [])
       = (imageHistory (callContext conversations conversation_id) = [])
   \<and> CONSISTENCY_INSTRUCTION \<noteq> []"
proof -
  have "generateParts env ctx prompt u reference_images
     = spec_manualReferenceParts env reference_images
       @ (if u \<and> imageHistory ctx \<noteq> [] then spec_recentHistoryParts ctx else [])
       @ [TextPart (if u \<and> imageHistory ctx \<noteq> []
                    then prompt @ CONSISTENCY_INSTRUCTION else prompt)]" for ctx u
    by (simp add: generateParts_def loadReferenceImages_parts historyParts_def finalPrompt_def
          recentHistoryParts_drop)
  moreover have "length (spec_recentHistoryParts ctx) \<le> 3" for ctx
    by (simp add: spec_recentHistoryParts_def)
  moreover have "(spec_recentHistoryParts ctx = []) = (imageHistory ctx = [])" for ctx
    by (simp add: spec_recentHistoryParts_def)
  moreover have "CONSISTENCY_INSTRUCTION \<noteq> []"
    by (simp add: CONSISTENCY_INSTRUCTION_def)
  ultimately show ?thesis
    by (simp add: gemini_generate_image_requests split: sum.splits)
qed

lemma scenarioRegistry_context:
  "callContext scenarioRegistry (Some ''s'')
     = \<lparr>history = [],
        imageHistory =
          [\<lparr>entry_id = ''img_1700000000001_k3j9x0q2z'',
            filePath = ''/home/u/Documents/nanobanana_generated/generated_1700000000000.png'',
            base64Data = ''SU1H'', mimeType = ''image/png'', entry_prompt = ''A'',
            timestamp = 1700000000002, entry_type = generated\<rparr>],
        aspectRatio = Some ''1:1''\<rparr>"
  by (simp add: scenarioRegistry_def callContext_def run_def runStep_def model_defs)

theorem generate_request_parts_witness:
  "backendRequests (snd (snd (gemini_generate_image sampleEnv scenarioRegistry ''B'' None None
      (Some ''s'') True [''ref.png'', ''missing.png''])))
     = [([InlineData ''image/png'' ''UkVG'', InlineData ''image/png'' ''SU1H'',
          TextPart (''B'' @ CONSISTENCY_INSTRUCTION)], ''1:1'')]"
proof -
  have m: "spec_manualReferenceParts sampleEnv [''ref.png'', ''missing.png''] = [InlineData ''image/png'' ''UkVG'']"
    by (simp add: spec_manualReferenceParts_def resolveAgainstCwd_def sampleEnv_def sampleFiles_def)
  have r: "resolveAspectRatio None (callContext scenarioRegistry (Some ''s'')) = Inr ''1:1''"
    by (simp add: scenarioRegistry_context resolveAspectRatio_absent)
  show ?thesis
    using generate_request_parts[of sampleEnv scenarioRegistry "''B''" None None "Some ''s''" True
        "[''ref.png'', ''missing.png'']"]
    by (simp add: m r) (simp add: scenarioRegistry_context spec_recentHistoryParts_def)
qed

subsection \<open>Chat\<close>

lemma gemini_chat_result:
  "gemini_chat env conversations message conversation_id system_prompt images
     = (case sendMessage env system_prompt (history (callContext conversations conversation_id))
               (TextPart message # spec_resolvedParts env (callContext conversations conversation_id) (take 10 images)) of
          Inl msg \<Rightarrow>
            (ToolError (SystemError msg),
             (fst (getOrCreateContext conversations (conversationIdOrDefault conversation_id)))
               (conversationIdOrDefault conversation_id \<mapsto>
                  (callContext conversations conversation_id)
                    \<lparr>history := history (callContext conversations conversation_id)
                       @ [(user, TextPart message
                             # spec_resolvedParts env (callContext conversations conversation_id) (take 10 images))]\<rparr>),
             [ChatCall system_prompt (history (callContext conversations conversation_id))
                (TextPart message # spec_resolvedParts env (callContext conversations conversation_id) (take 10 images))])
        | Inr reply \<Rightarrow>
            (ChatReply (length (spec_resolvedParts env (callContext conversations conversation_id) (take 10 images)))
               reply (spec_failedReferences env (callContext conversations conversation_id) (take 10 images)),
             (fst (getOrCreateContext conversations (conversationIdOrDefault conversation_id)))
               (conversationIdOrDefault conversation_id \<mapsto>
                  (callContext conversations conversation_id)
                    \<lparr>history := history (callContext conversations conversation_id)
                       @ [(user, TextPart message
                             # spec_resolvedParts env (callContext conversations conversation_id) (take 10 images)),
                          (model, [TextPart reply])]\<rparr>),
             [ChatCall system_prompt (history (callContext conversations conversation_id))
                (TextPart message # spec_resolvedParts env (callContext conversations conversation_id) (take 10 images))]))"
  by (simp add: gemini_chat_def chatMessageParts_def callContext_def Let_def resolveImageRefs_parts
        resolveImageRefs_failed split: sum.splits)

text \<open>
  Claim C7 fails on the code: the text of the message is the first part of the new turn,
  and the images follow it. A chat call with the message \<open>hi\<close> and one image sends the
  text part first, not last.
\<close>

theorem chat_text_part_first_counterexample:
  "snd (snd (gemini_chat sampleEnv Map.empty ''hi'' None None [''ref.png'']))
     = [ChatCall None [] [TextPart ''hi'', InlineData ''image/png'' ''UkVG'']]
   \<and> spec_resolvedParts sampleEnv (callContext Map.empty None) (take 10 [''ref.png'']) @ [TextPart ''hi'']
     = [InlineData ''image/png'' ''UkVG'', TextPart ''hi'']
   \<and> snd (snd (gemini_chat sampleEnv Map.empty ''hi'' None None [''ref.png'']))
     \<noteq> [ChatCall None []
          (spec_resolvedParts sampleEnv (callContext Map.empty None) (take 10 [''ref.png'']) @ [TextPart ''hi''])]"
proof -
  have r: "spec_resolvedParts sampleEnv (callContext Map.empty None) [''ref.png'']
             = [InlineData ''image/png'' ''UkVG'']"
    by (simp add: spec_resolvedParts_def resolveImageRef_def getImageFromHistory_def callContext_def
          getOrCreateContext_def newContext_def resolveAgainstCwd_def imageToBase64_def sampleEnv_def
          sampleFiles_def)
  have h: "history (callContext Map.empty None) = []"
    by (simp add: callContext_def getOrCreateContext_def newContext_def)
  have s: "sendMessage sampleEnv = (\<lambda>system_prompt transcript parts. Inr ''hello'')"
    by (simp add: sampleEnv_def)
  show ?thesis
    by (simp add: gemini_chat_result r h s)
qed

text \<open>
  Claim C7 as amended. A chat call invokes the backend once, with the prior transcript
  as the history and with the parts of the new turn in this order: the message text as
  the first part, then the images that resolve among the first 10 references, in the
  order given (at most 10). The references among the first 10 that fail are left out of
  the parts and are returned with the reply as warnings.
\<close>

theorem chat_request_parts:
  "snd (snd (gemini_chat env conversations message conversation_id system_prompt images))
     = [ChatCall system_prompt (history (callContext conversations conversation_id))
          (TextPart message
           # spec_resolvedParts env (callContext conversations conversation_id) (take 10 images))]
   \<and> length (spec_resolvedParts env (callContext conversations conversation_id) (take 10 images)) \<le> 10
   \<and> (\<forall>reply. sendMessage env system_prompt (history (callContext conversations conversation_id))
          (TextPart message
           # spec_resolvedParts env (callContext conversations conversation_id) (take 10 images)) = Inr reply
        \<longrightarrow> fst (gemini_chat env conversations message conversation_id system_prompt images)
            = ChatReply (length (spec_resolvedParts env (callContext conversations conversation_id) (take 10 images)))
                reply (spec_failedReferences env (callContext conversations conversation_id) (take 10 images)))"
proof -
  have a: "length (List.map_filter f xs) \<le> length xs" for f :: "string \<Rightarrow> Part option" and xs
    by (simp add: map_filter_def)
  have "length (spec_resolvedParts env (callContext conversations conversation_id) (take 10 images))
          \<le> length (take 10 images)"
    unfolding spec_resolvedParts_def by (rule a)
  also have "\<dots> \<le> 10" by simp
  finally show ?thesis
    by (simp add: gemini_chat_result split: sum.splits)
qed

theorem chat_request_parts_witness:
  "snd (snd (gemini_chat sampleEnv Map.empty ''hi'' None (Some ''be brief'') [''ref.png'', ''nope.png'', ''old.png'']))
     = [ChatCall (Some ''be brief'') []
          [TextPart ''hi'', InlineData ''image/png'' ''UkVG'', InlineData ''image/png'' ''T0xE'']]
   \<and> fst (gemini_chat sampleEnv Map.empty ''hi'' None (Some ''be brief'') [''ref.png'', ''nope.png'', ''old.png''])
     = ChatReply 2 ''hello'' [(''nope.png'', SystemError ''ENOENT'')]"
proof -
  have c: "callContext Map.empty None = newContext"
    by (simp add: callContext_def getOrCreateContext_def)
  have r: "spec_resolvedParts sampleEnv newContext [''ref.png'', ''nope.png'', ''old.png'']
             = [InlineData ''image/png'' ''UkVG'', InlineData ''image/png'' ''T0xE'']"
    by (simp add: spec_resolvedParts_def resolveImageRef_def getImageFromHistory_def
          newContext_def resolveAgainstCwd_def altPathOf_def lastSegment_def imageToBase64_def
          sampleEnv_def sampleFiles_def)
  have f: "spec_failedReferences sampleEnv newContext [''ref.png'', ''nope.png'', ''old.png'']
             = [(''nope.png'', SystemError ''ENOENT'')]"
    by (simp add: spec_failedReferences_def resolveImageRef_def getImageFromHistory_def
          newContext_def resolveAgainstCwd_def altPathOf_def lastSegment_def imageToBase64_def
          sampleEnv_def sampleFiles_def)
  have s: "sendMessage sampleEnv = (\<lambda>system_prompt transcript parts. Inr ''hello'')"
    by (simp add: sampleEnv_def)
  have h: "history newContext = []"
    by (simp add: newContext_def)
  show ?thesis
    using chat_request_parts[of sampleEnv Map.empty "''hi''" None "Some ''be brief''"
        "[''ref.png'', ''nope.png'', ''old.png'']"]
    by (simp add: c r f s h)
qed

text \<open>
  Claim C10. A chat call hands the backend the transcript as it was before the call and
  the parts of the new user turn (the message text and the images that resolved). When
  the backend call fails, the call answers with the error and the transcript of the
  session is the old one followed by the user turn, with no model turn; when it succeeds,
  the transcript is the old one followed by the user turn and the model's reply.
\<close>

theorem chat_user_turn_kept_on_failure:
  "(let ctx = callContext conversations conversation_id;
        cid = conversationIdOrDefault conversation_id;
        parts = TextPart message # spec_resolvedParts env ctx (take 10 images);
        result = gemini_chat env conversations message conversation_id system_prompt images
    in snd (snd result) = [ChatCall system_prompt (history ctx) parts]
       \<and> (\<forall>msg. sendMessage env system_prompt (history ctx) parts = Inl msg \<longrightarrow>
              fst result = ToolError (SystemError msg)
              \<and> fst (snd result) cid = Some (ctx\<lparr>history := history ctx @ [(user, parts)]\<rparr>))
       \<and> (\<forall>reply. sendMessage env system_prompt (history ctx) parts = Inr reply \<longrightarrow>
              fst (snd result) cid
                = Some (ctx\<lparr>history := history ctx @ [(user, parts), (model, [TextPart reply])]\<rparr>)))"
  by (simp add: Let_def gemini_chat_result split: sum.splits)

theorem chat_user_turn_kept_on_failure_witness:
  "fst (gemini_chat failingChatEnv Map.empty ''hi'' None None [''ref.png''])
     = ToolError (SystemError ''503 Service Unavailable'')
   \<and> fst (snd (gemini_chat failingChatEnv Map.empty ''hi'' None None [''ref.png''])) ''default''
     = Some \<lparr>history = [(user, [TextPart ''hi'', InlineData ''image/png'' ''UkVG''])],
             imageHistory = [], aspectRatio = None\<rparr>"
proof -
  have c: "callContext Map.empty None = newContext"
    by (simp add: callContext_def getOrCreateContext_def)
  have r: "spec_resolvedParts failingChatEnv newContext [''ref.png''] = [InlineData ''image/png'' ''UkVG'']"
    by (simp add: spec_resolvedParts_def resolveImageRef_def getImageFromHistory_def failingChatEnv_def
          newContext_def resolveAgainstCwd_def imageToBase64_def sampleEnv_def sampleFiles_def)
  have s: "sendMessage failingChatEnv None [] [TextPart ''hi'', InlineData ''image/png'' ''UkVG'']
             = Inl ''503 Service Unavailable''"
    by (simp add: failingChatEnv_def)
  show ?thesis
    using chat_user_turn_kept_on_failure[of Map.empty None "''hi''" failingChatEnv "[''ref.png'']" None] s
    by (simp add: Let_def c r conversationIdOrDefault_def) (simp add: newContext_def)
qed

subsection \<open>Edit: the subject and the extra references\<close>

lemma getOrCreateContext_again:
  "(fst (getOrCreateContext conversations cid))(cid \<mapsto> snd (getOrCreateContext conversations cid))
     = fst (getOrCreateContext conversations cid)"
  by (auto simp: getOrCreateContext_def split: option.splits)

lemma editWithRatio_subject_error:
  "resolveSubject env ctx image_path = Inl e \<Longrightarrow>
   editWithRatio env cid ctx image_path edit_prompt output_path reference_images ratio
     = (ErrorEditingImage e, ctx, [])"
  by (simp add: editWithRatio_def)

lemma editWithRatio_requests:
  assumes "resolveSubject env ctx image_path = Inr (resolvedImagePath, imageBase64)"
  shows "backendRequests (snd (snd (editWithRatio env cid ctx image_path edit_prompt output_path
            reference_images ratio)))
           = [(editParts env ctx edit_prompt reference_images imageBase64, ratio)]"
    and "fst (editWithRatio env cid ctx image_path edit_prompt output_path reference_images ratio)
           = ImageEdited a b n w t \<Longrightarrow> w = snd (resolveImageRefs env ctx (take 10 reference_images))"
  using assms
  by (auto simp add: editWithRatio_def Let_def split: sum.splits option.splits if_splits)

lemma gemini_edit_image_unresolvable:
  assumes "getImageFromHistory (callContext conversations conversation_id) image_path = None"
    and "spec_resolveFilePath env image_path = None"
  shows "gemini_edit_image env conversations image_path edit_prompt aspect_ratio output_path
           conversation_id reference_images
         = ((case resolveAspectRatio aspect_ratio (callContext conversations conversation_id) of
               Inl response \<Rightarrow> response
             | Inr _ \<Rightarrow> ErrorEditingImage (ImageFileNotFound image_path)),
            fst (getOrCreateContext conversations (conversationIdOrDefault conversation_id)), [])"
proof -
  have "resolveSubject env (callContext conversations conversation_id) image_path
          = Inl (ImageFileNotFound image_path)"
    using assms by (simp add: resolveSubject_path)
  then show ?thesis
    by (simp add: gemini_edit_image_def Let_def callContext_def[symmetric] editWithRatio_subject_error
          split: sum.splits)
       (simp add: callContext_def getOrCreateContext_again)
qed

text \<open>
  Claim C5 fails on the code for a call whose ratio does not resolve: the ratio is
  checked before the subject, so an edit call with an unresolvable subject, no explicit
  ratio and no configured default answers with the missing-ratio error, not with
  not-found.
\<close>

theorem edit_unresolvable_subject_counterexample:
  "getImageFromHistory (callContext Map.empty None) ''none.png'' = None
   \<and> spec_resolveFilePath sampleEnv ''none.png'' = None
   \<and> fst (gemini_edit_image sampleEnv Map.empty ''none.png'' ''bluer'' None None None [])
       = AspectRatioNotSpecified
   \<and> fst (gemini_edit_image sampleEnv Map.empty ''none.png'' ''bluer'' None None None [])
       \<noteq> ErrorEditingImage (ImageFileNotFound ''none.png'')"
proof -
  have c: "callContext Map.empty None = newContext"
    by (simp add: callContext_def getOrCreateContext_def)
  have g: "getImageFromHistory (callContext Map.empty None) ''none.png'' = None"
    by (simp add: c getImageFromHistory_def newContext_def)
  have p: "spec_resolveFilePath sampleEnv ''none.png'' = None"
    by (simp add: spec_resolveFilePath_def resolveAgainstCwd_def altPathOf_def lastSegment_def sampleEnv_def
          sampleFiles_def)
  have r: "resolveAspectRatio None newContext = Inl AspectRatioNotSpecified"
    by (simp add: resolveAspectRatio_absent newContext_def)
  show ?thesis
    using g p by (simp add: gemini_edit_image_unresolvable[OF g p] c r)
qed

text \<open>
  Claim C5 as amended. An edit call whose subject resolves neither from the history nor
  from the file system (the basename in the default directory included) invokes no
  backend and hands nothing to \<open>addImageToHistory\<close>: the trace is empty and the media
  history of every session is what it was. The call fails with not-found when its ratio
  resolves, and with the error of the ratio resolution, which comes first, when it does
  not. When the ratio and the subject resolve, the backend is invoked once whatever
  happens to the extra reference images: the request holds the references that resolve
  among the first 10, then the editing instruction, then the subject, and a successful
  response carries the references that failed as its warnings.
\<close>

theorem edit_unresolvable_subject:
  "(getImageFromHistory (callContext conversations conversation_id) image_path = None
      \<and> spec_resolveFilePath env image_path = None \<longrightarrow>
      fst (gemini_edit_image env conversations image_path edit_prompt aspect_ratio output_path
             conversation_id reference_images)
        = (case resolveAspectRatio aspect_ratio (callContext conversations conversation_id) of
             Inl response \<Rightarrow> response
           | Inr _ \<Rightarrow> ErrorEditingImage (ImageFileNotFound image_path))
      \<and> snd (snd (gemini_edit_image env conversations image_path edit_prompt aspect_ratio output_path
             conversation_id reference_images)) = []
      \<and> (\<forall>cid. sessionHistory (fst (snd (gemini_edit_image env conversations image_path edit_prompt
                    aspect_ratio output_path conversation_id reference_images))) cid
               = sessionHistory conversations cid))
   \<and> (resolveAspectRatio aspect_ratio (callContext conversations conversation_id) = Inr ratio
      \<and> resolveSubject env (callContext conversations conversation_id) image_path
          = Inr (resolvedImagePath, imageBase64) \<longrightarrow>
      backendRequests (snd (snd (gemini_edit_image env conversations image_path edit_prompt
          aspect_ratio output_path conversation_id reference_images)))
        = [(spec_resolvedParts env (callContext conversations conversation_id) (take 10 reference_images)
            @ [TextPart (editingPrompt edit_prompt), InlineData ''image/png'' imageBase64], ratio)]
      \<and> (\<forall>a b n w t.
            fst (gemini_edit_image env conversations image_path edit_prompt aspect_ratio output_path
                   conversation_id reference_images) = ImageEdited a b n w t \<longrightarrow>
            w = spec_failedReferences env (callContext conversations conversation_id)
                  (take 10 reference_images)))"
proof (intro conjI impI)
  assume a: "getImageFromHistory (callContext conversations conversation_id) image_path = None
      \<and> spec_resolveFilePath env image_path = None"
  note u = gemini_edit_image_unresolvable[of conversations conversation_id image_path env edit_prompt
      aspect_ratio output_path reference_images]
  from a u show "fst (gemini_edit_image env conversations image_path edit_prompt aspect_ratio output_path
             conversation_id reference_images)
        = (case resolveAspectRatio aspect_ratio (callContext conversations conversation_id) of
             Inl response \<Rightarrow> response
           | Inr _ \<Rightarrow> ErrorEditingImage (ImageFileNotFound image_path))"
    by simp
  from a u show "snd (snd (gemini_edit_image env conversations image_path edit_prompt aspect_ratio output_path
             conversation_id reference_images)) = []"
    by simp
  from a u show "\<forall>cid. sessionHistory (fst (snd (gemini_edit_image env conversations image_path edit_prompt
                    aspect_ratio output_path conversation_id reference_images))) cid
               = sessionHistory conversations cid"
    by (simp add: getOrCreateContext_history)
next
  assume b: "resolveAspectRatio aspect_ratio (callContext conversations conversation_id) = Inr ratio
      \<and> resolveSubject env (callContext conversations conversation_id) image_path
          = Inr (resolvedImagePath, imageBase64)"
  obtain response ctx1 events where e:
    "editWithRatio env (conversationIdOrDefault conversation_id) (callContext conversations conversation_id)
       image_path edit_prompt output_path reference_images ratio = (response, ctx1, events)"
    by (cases "editWithRatio env (conversationIdOrDefault conversation_id)
         (callContext conversations conversation_id) image_path edit_prompt output_path
         reference_images ratio") auto
  have g: "gemini_edit_image env conversations image_path edit_prompt aspect_ratio output_path
             conversation_id reference_images
           = (response,
              (fst (getOrCreateContext conversations (conversationIdOrDefault conversation_id)))
                (conversationIdOrDefault conversation_id \<mapsto> ctx1), events)"
    using b e by (simp add: gemini_edit_image_def Let_def callContext_def)
  note q = editWithRatio_requests[of env "callContext conversations conversation_id" image_path
      resolvedImagePath imageBase64 "conversationIdOrDefault conversation_id" edit_prompt output_path
      reference_images ratio]
  from b q(1) e show "backendRequests (snd (snd (gemini_edit_image env conversations image_path edit_prompt
          aspect_ratio output_path conversation_id reference_images)))
        = [(spec_resolvedParts env (callContext conversations conversation_id) (take 10 reference_images)
            @ [TextPart (editingPrompt edit_prompt), InlineData ''image/png'' imageBase64], ratio)]"
    by (simp add: g editParts_def resolveImageRefs_parts)
  from b q(2) e show "\<forall>a b n w t.
            fst (gemini_edit_image env conversations image_path edit_prompt aspect_ratio output_path
                   conversation_id reference_images) = ImageEdited a b n w t \<longrightarrow>
            w = spec_failedReferences env (callContext conversations conversation_id)
                  (take 10 reference_images)"
    by (simp add: g resolveImageRefs_failed)
qed


theorem edit_unresolvable_subject_witness:
  "fst (gemini_edit_image sampleEnv Map.empty ''none.png'' ''bluer'' (Some ''1:1'') None None [''ref.png''])
     = ErrorEditingImage (ImageFileNotFound ''none.png'')
   \<and> snd (snd (gemini_edit_image sampleEnv Map.empty ''none.png'' ''bluer'' (Some ''1:1'') None None [''ref.png''])) = []
   \<and> sessionHistory (fst (snd (gemini_edit_image sampleEnv Map.empty ''none.png'' ''bluer'' (Some ''1:1'')
        None None [''ref.png'']))) ''default'' = []
   \<and> backendRequests (snd (snd (gemini_edit_image sampleEnv Map.empty ''old.png'' ''bluer'' (Some ''1:1'')
        None None [''nope.png'', ''ref.png''])))
       = [([InlineData ''image/png'' ''UkVG'', TextPart (editingPrompt ''bluer''),
            InlineData ''image/png'' ''T0xE''], ''1:1'')]"
proof -
  have c: "callContext Map.empty None = newContext"
    by (simp add: callContext_def getOrCreateContext_def)
  have g: "getImageFromHistory newContext ''none.png'' = None"
    by (simp add: getImageFromHistory_def newContext_def)
  have p: "spec_resolveFilePath sampleEnv ''none.png'' = None"
    by (simp add: spec_resolveFilePath_def resolveAgainstCwd_def altPathOf_def lastSegment_def sampleEnv_def
          sampleFiles_def)
  have r: "resolveAspectRatio (Some ''1:1'') newContext = Inr ''1:1''"
    by (simp add: resolveAspectRatio_explicit VALID_ASPECT_RATIOS_def)
  have s: "resolveSubject sampleEnv newContext ''old.png''
             = Inr (''/home/u/Documents/nanobanana_generated/old.png'', ''T0xE'')"
    by (simp add: resolveSubject_def getImageFromHistory_def newContext_def resolveAgainstCwd_def
          altPathOf_def lastSegment_def imageToBase64_def sampleEnv_def sampleFiles_def)
  have q: "spec_resolvedParts sampleEnv newContext [''nope.png'', ''ref.png''] = [InlineData ''image/png'' ''UkVG'']"
    by (simp add: spec_resolvedParts_def resolveImageRef_def getImageFromHistory_def
          newContext_def resolveAgainstCwd_def altPathOf_def lastSegment_def imageToBase64_def
          sampleEnv_def sampleFiles_def)
  have h: "sessionHistory Map.empty ''default'' = []"
    by (simp add: sessionHistory_def)
  note a = edit_unresolvable_subject[of Map.empty None "''none.png''" sampleEnv "''bluer''" "Some ''1:1''"
      None "[''ref.png'']" "''1:1''" "''x''" "''y''"]
  note b = edit_unresolvable_subject[of Map.empty None "''old.png''" sampleEnv "''bluer''" "Some ''1:1''"
      None "[''nope.png'', ''ref.png'']" "''1:1''" "''/home/u/Documents/nanobanana_generated/old.png''"
      "''T0xE''"]
  from a g p r have "fst (gemini_edit_image sampleEnv Map.empty ''none.png'' ''bluer'' (Some ''1:1'') None None [''ref.png''])
     = ErrorEditingImage (ImageFileNotFound ''none.png'')"
    by (simp add: c)
  moreover from a g p have "snd (snd (gemini_edit_image sampleEnv Map.empty ''none.png'' ''bluer'' (Some ''1:1'') None None [''ref.png''])) = []"
    by (simp add: c)
  moreover from a g p h have "sessionHistory (fst (snd (gemini_edit_image sampleEnv Map.empty ''none.png'' ''bluer'' (Some ''1:1'')
        None None [''ref.png'']))) ''default'' = []"
    by (simp add: c)
  moreover from b r s q have "backendRequests (snd (snd (gemini_edit_image sampleEnv Map.empty ''old.png'' ''bluer'' (Some ''1:1'')
        None None [''nope.png'', ''ref.png''])))
       = [([InlineData ''image/png'' ''UkVG'', TextPart (editingPrompt ''bluer''),
            InlineData ''image/png'' ''T0xE''], ''1:1'')]"
    by (simp add: c)
  ultimately show ?thesis by blast
qed

subsection \<open>File references\<close>

text \<open>
  Claim C8 fails on the code for the reference images of a generate call: they are read
  from the path resolved against the working directory, with no second location. A
  reference whose basename exists in the default output directory, and which the
  resolution of the specification therefore finds, is reported as failed and left out of
  the request.
\<close>

theorem generate_reference_no_fallback_counterexample:
  "spec_resolveFilePath sampleEnv ''old.png'' = Some ''/home/u/Documents/nanobanana_generated/old.png''
   \<and> loadReferenceImage sampleEnv ''old.png'' = Inl (SystemError ''ENOENT'')
   \<and> backendRequests (snd (snd (gemini_generate_image sampleEnv Map.empty ''A cat'' (Some ''1:1'') None
        None False [''old.png''])))
       = [([TextPart ''A cat''], ''1:1'')]
   \<and> fst (gemini_generate_image sampleEnv Map.empty ''A cat'' (Some ''1:1'') None None False [''old.png''])
       = ImageGenerated ''/home/u/Documents/nanobanana_generated/generated_1700000000000.png'' 1
           [(''old.png'', SystemError ''ENOENT'')] ''done''"
proof -
  have "spec_resolveFilePath sampleEnv ''old.png'' = Some ''/home/u/Documents/nanobanana_generated/old.png''"
    by (simp add: spec_resolveFilePath_def resolveAgainstCwd_def altPathOf_def lastSegment_def sampleEnv_def
          sampleFiles_def)
  moreover have "loadReferenceImage sampleEnv ''old.png'' = Inl (SystemError ''ENOENT'')"
    by (simp add: loadReferenceImage_def imageToBase64_def resolveAgainstCwd_def sampleEnv_def
          sampleFiles_def)
  moreover have "backendRequests (snd (snd (gemini_generate_image sampleEnv Map.empty ''A cat'' (Some ''1:1'') None
        None False [''old.png''])))
       = [([TextPart ''A cat''], ''1:1'')]"
    by (simp add: model_defs)
  moreover have "fst (gemini_generate_image sampleEnv Map.empty ''A cat'' (Some ''1:1'') None None False [''old.png''])
       = ImageGenerated ''/home/u/Documents/nanobanana_generated/generated_1700000000000.png'' 1
           [(''old.png'', SystemError ''ENOENT'')] ''done''"
    by (simp add: model_defs)
  ultimately show ?thesis by blast
qed

text \<open>
  Claim C8 as amended. For the images of a chat call, the reference images of an edit
  call and the subject of an edit call, a reference that the history does not resolve is
  a file path: the path resolved against the working directory when it is accessible,
  else the basename inside the default output directory when that is accessible, and
  only when neither is does the reference fail (for the subject, with not-found). The
  chat and edit loops apply this to each reference. The reference images of a generate
  call are read from the path resolved against the working directory only, with no
  history lookup and no second location.
\<close>

theorem reference_path_resolution:
  "(getImageFromHistory ctx reference = None \<longrightarrow>
      resolveImageRef env ctx reference
        = (case spec_resolveFilePath env reference of
             Some p \<Rightarrow> map_sum id (InlineData ''image/png'') (imageToBase64 env p)
           | None \<Rightarrow> Inl (SystemError (the (fs_access env (altPathOf env reference)))))
      \<and> resolveSubject env ctx reference
        = (case spec_resolveFilePath env reference of
             Some p \<Rightarrow> map_sum id (Pair p) (imageToBase64 env p)
           | None \<Rightarrow> Inl (ImageFileNotFound reference)))
   \<and> (spec_resolveFilePath env reference = None)
       = (fs_access env (resolveAgainstCwd env reference) \<noteq> None
          \<and> fs_access env (altPathOf env reference) \<noteq> None)
   \<and> chatMessageParts env ctx message references
       = TextPart message # spec_resolvedParts env ctx (take 10 references)
   \<and> editParts env ctx edit_prompt references imageBase64
       = spec_resolvedParts env ctx (take 10 references)
         @ [TextPart (editingPrompt edit_prompt), InlineData ''image/png'' imageBase64]
   \<and> loadReferenceImage env reference
       = map_sum id (InlineData ''image/png'') (imageToBase64 env (resolveAgainstCwd env reference))
   \<and> fst (loadReferenceImages env references) = spec_manualReferenceParts env references"
  using resolveImageRef_path[of ctx reference env] resolveSubject_path[of ctx reference env]
  by (simp add: spec_resolveFilePath_def chatMessageParts_def editParts_def resolveImageRefs_parts
        loadReferenceImage_def loadReferenceImages_parts)

theorem reference_path_resolution_witness:
  "resolveImageRef sampleEnv newContext ''old.png'' = Inr (InlineData ''image/png'' ''T0xE'')
   \<and> resolveSubject sampleEnv newContext ''old.png''
       = Inr (''/home/u/Documents/nanobanana_generated/old.png'', ''T0xE'')
   \<and> resolveSubject sampleEnv newContext ''none.png'' = Inl (ImageFileNotFound ''none.png'')"
proof -
  have g: "getImageFromHistory newContext r = None" for r
    by (simp add: getImageFromHistory_def newContext_def)
  have p: "spec_resolveFilePath sampleEnv ''old.png'' = Some ''/home/u/Documents/nanobanana_generated/old.png''"
    by (simp add: spec_resolveFilePath_def resolveAgainstCwd_def altPathOf_def lastSegment_def sampleEnv_def
          sampleFiles_def)
  have n: "spec_resolveFilePath sampleEnv ''none.png'' = None"
    by (simp add: spec_resolveFilePath_def resolveAgainstCwd_def altPathOf_def lastSegment_def sampleEnv_def
          sampleFiles_def)
  have b: "imageToBase64 sampleEnv ''/home/u/Documents/nanobanana_generated/old.png'' = Inr ''T0xE''"
    by (simp add: imageToBase64_def sampleEnv_def sampleFiles_def)
  note a = reference_path_resolution[of newContext "''old.png''" sampleEnv]
  note c = reference_path_resolution[of newContext "''none.png''" sampleEnv]
  from a g p b have "resolveImageRef sampleEnv newContext ''old.png'' = Inr (InlineData ''image/png'' ''T0xE'')"
    by simp
  moreover from a g p b have "resolveSubject sampleEnv newContext ''old.png''
       = Inr (''/home/u/Documents/nanobanana_generated/old.png'', ''T0xE'')"
    by simp
  moreover from c g n have "resolveSubject sampleEnv newContext ''none.png'' = Inl (ImageFileNotFound ''none.png'')"
    by simp
  ultimately show ?thesis by blast
qed

subsection \<open>Output path\<close>


lemma stripExtension_ext:
  assumes "ext \<noteq> []" "CHR ''/'' \<notin> set ext" "CHR ''.'' \<notin> set ext"
  shows "stripExtension (base @ ''.'' @ ext) = base"
proof -
  have "takeWhile (\<lambda>c. c \<noteq> CHR ''/'' \<and> c \<noteq> CHR ''.'') (rev ext @ CHR ''.'' # rev base) = rev ext"
    using assms by (subst takeWhile_append2) auto
  then show ?thesis
    using assms by (simp add: stripExtension_def Let_def)
qed

lemma stripExtension_changes:
  assumes "stripExtension s \<noteq> s"
  shows "\<exists>base ext. s = base @ ''.'' @ ext \<and> ext \<noteq> [] \<and> CHR ''/'' \<notin> set ext \<and> CHR ''.'' \<notin> set ext"
proof -
  define P where "P = (\<lambda>c. c \<noteq> CHR ''/'' \<and> c \<noteq> CHR ''.'')"
  define ext where "ext = takeWhile P (rev s)"
  define rest where "rest = drop (length ext) (rev s)"
  have c: "ext \<noteq> []" "rest \<noteq> []" "hd rest = CHR ''.''"
    using assms unfolding stripExtension_def Let_def ext_def rest_def P_def
    by (auto split: if_splits)
  have "rest = dropWhile P (rev s)"
    unfolding rest_def ext_def by (simp add: dropWhile_eq_drop)
  then have "rev s = ext @ rest"
    unfolding ext_def by simp
  then have "rev s = ext @ CHR ''.'' # tl rest"
    using c by (cases rest) auto
  then have "rev (rev s) = rev (ext @ CHR ''.'' # tl rest)"
    by (simp only:)
  then have s: "s = rev (tl rest) @ ''.'' @ rev ext"
    by simp
  have "\<forall>x \<in> set ext. P x"
    unfolding ext_def by (auto dest: set_takeWhileD)
  then have "CHR ''/'' \<notin> set (rev ext) \<and> CHR ''.'' \<notin> set (rev ext)"
    unfolding P_def by auto
  with s c(1) show ?thesis
    by (intro exI[of _ "rev (tl rest)"] exI[of _ "rev ext"]) simp
qed


lemma toLowerCase_png: "toLowerCase ''.png'' = ''.png''"
  by (simp add: toLowerCase_def toLowerCaseChar_def)

lemma toLowerCase_append: "toLowerCase (s @ t) = toLowerCase s @ toLowerCase t"
  by (simp add: toLowerCase_def)

lemma endsWith_append_same_length:
  "length t = length suffix \<Longrightarrow> endsWith (s @ t) suffix = (t = suffix)"
  by (simp add: endsWith_def)

lemma forcePngExtension_lower: "endsWith (toLowerCase (forcePngExtension q)) ''.png''"
proof (cases "endsWith (toLowerCase q) ''.png''")
  case True
  then show ?thesis by (simp add: forcePngExtension_def)
next
  case False
  have e: "endsWith (toLowerCase (stripExtension q) @ ''.png'') ''.png''"
    by (rule endsWith_append_same_length[THEN iffD2]) simp_all
  have "forcePngExtension q = stripExtension q @ ''.png''"
    using False by (simp add: forcePngExtension_def)
  with e show ?thesis
    by (simp only: toLowerCase_append toLowerCase_png)
qed

lemma not_png_suffix:
  assumes "length t = 4" "toLowerCase t \<noteq> ''.png''"
  shows "\<not> endsWith (toLowerCase (s @ t)) ''.png''"
proof -
  have "length (toLowerCase t) = length ''.png''"
    using assms(1) by (simp add: toLowerCase_def)
  then show ?thesis
    using assms(2) by (simp add: toLowerCase_append endsWith_append_same_length del: length_Cons)
qed

lemma forcePngExtension_out: "forcePngExtension (dir @ ''/out'') = dir @ ''/out.png''"
proof -
  have "\<not> endsWith (toLowerCase (dir @ ''/out'')) ''.png''"
    by (rule not_png_suffix) (simp_all add: toLowerCase_def toLowerCaseChar_def)
  moreover have "stripExtension (dir @ ''/out'') = dir @ ''/out''"
    by (simp add: stripExtension_def)
  ultimately show ?thesis
    by (simp add: forcePngExtension_def)
qed

lemma forcePngExtension_out_jpg: "forcePngExtension (dir @ ''/out.jpg'') = dir @ ''/out.png''"
proof -
  have "\<not> endsWith (toLowerCase (dir @ ''/out.jpg'')) ''.png''"
    using not_png_suffix[of "''.jpg''" "dir @ ''/out''"]
    by (simp add: toLowerCase_def toLowerCaseChar_def)
  moreover have "stripExtension ((dir @ ''/out'') @ ''.'' @ ''jpg'') = dir @ ''/out''"
    by (rule stripExtension_ext) simp_all
  ultimately show ?thesis
    by (simp add: forcePngExtension_def)
qed

lemma generateWithRatio_path:
  "fst (generateWithRatio env cid ctx prompt requested use_image_history reference_images ratio)
     = ImageGenerated finalPath n w t \<Longrightarrow> generateOutputPath env requested = Inr finalPath"
  by (auto simp add: generateWithRatio_def Let_def split: sum.splits option.splits if_splits)

lemma editWithRatio_path:
  "fst (editWithRatio env cid ctx image_path edit_prompt requested reference_images ratio)
     = ImageEdited subject finalPath n w t \<Longrightarrow> editOutputPath env ctx image_path requested = Inr finalPath"
  by (auto simp add: editWithRatio_def Let_def split: sum.splits option.splits if_splits prod.splits)

text \<open>
  Claim C9 fails on the code for a requested path that already ends in \<open>.png\<close> in another
  letter case: the test is made on the lower-cased path, so \<open>out.PNG\<close> is kept as it is,
  where stripping the extension and appending \<open>.png\<close> gives \<open>out.png\<close>.
\<close>

theorem output_extension_case_counterexample:
  "generateOutputPath sampleEnv (Some ''out.PNG'') = Inr ''/work/out.PNG''
   \<and> editOutputPath sampleEnv newContext ''ref.png'' (Some ''out.PNG'') = Inr ''/work/out.PNG''
   \<and> stripExtension ''/work/out.PNG'' @ ''.png'' = ''/work/out.png''
   \<and> \<not> endsWith ''/work/out.PNG'' ''.png''"
  by (simp add: generateOutputPath_def editOutputPath_def requestedOutputPath_def truthy_def
        resolveAgainstCwd_def forcePngExtension_def endsWith_def toLowerCase_def toLowerCaseChar_def
        stripExtension_def sampleEnv_def)

text \<open>
  Claim C9 as amended. A requested output path (present and not empty) is resolved
  against the working directory when it is relative, and then: kept as it is when it
  ends in \<open>.png\<close> in any letter case; otherwise its final extension, a dot followed by one
  or more characters other than \<open>/\<close> and \<open>.\<close> up to the end, is removed when there is one,
  and \<open>.png\<close> is appended. So the final path always ends in \<open>.png\<close> up to letter case,
  \<open>out\<close> becomes \<open>out.png\<close> and \<open>out.jpg\<close> becomes \<open>out.png\<close>. With no requested path
  (absent or empty) and the default directory created, the file goes to the default
  directory under \<open>generated_<epoch-millis>.png\<close> for a generate call and
  \<open><name>_edited_<epoch-millis>.png\<close> for an edit call, the name being \<open>history_<id>\<close>
  for a subject from the history and the file name without extension otherwise. The path
  a successful call reports is this path.
\<close>

theorem output_path_normalization:
  "(output_path \<noteq> [] \<longrightarrow>
      generateOutputPath env (Some output_path)
        = Inr (forcePngExtension (resolveAgainstCwd env output_path))
      \<and> editOutputPath env ctx image_path (Some output_path)
        = Inr (forcePngExtension (resolveAgainstCwd env output_path)))
   \<and> resolveAgainstCwd env output_path
       = (if path_isAbsolute env output_path then output_path
          else path_join env [process_cwd env, output_path])
   \<and> forcePngExtension q
       = (if endsWith (toLowerCase q) ''.png'' then q else stripExtension q @ ''.png'')
   \<and> endsWith (toLowerCase (forcePngExtension q)) ''.png''
   \<and> (ext \<noteq> [] \<and> CHR ''/'' \<notin> set ext \<and> CHR ''.'' \<notin> set ext \<longrightarrow>
        stripExtension (base @ ''.'' @ ext) = base)
   \<and> (stripExtension q \<noteq> q \<longrightarrow>
        (\<exists>b e. q = b @ ''.'' @ e \<and> e \<noteq> [] \<and> CHR ''/'' \<notin> set e \<and> CHR ''.'' \<notin> set e))
   \<and> forcePngExtension (dir @ ''/out'') = dir @ ''/out.png''
   \<and> forcePngExtension (dir @ ''/out.jpg'') = dir @ ''/out.png''
   \<and> (\<not> truthy requested \<and> fs_mkdir env (defaultOutputDir env) = None \<longrightarrow>
        generateOutputPath env requested
          = Inr (path_join env
                   [defaultOutputDir env, ''generated_'' @ show_nat (Date_now env 0) @ ''.png''])
        \<and> editOutputPath env ctx image_path requested
          = Inr (path_join env
                   [defaultOutputDir env,
                    (case getImageFromHistory ctx image_path of
                       Some historyImage \<Rightarrow> ''history_'' @ entry_id historyImage
                     | None \<Rightarrow> path_parse_name env image_path)
                    @ ''_edited_'' @ show_nat (Date_now env 0) @ ''.png'']))
   \<and> (fst (generateWithRatio env cid ctx prompt requested use_image_history reference_images ratio)
         = ImageGenerated finalPath n w t \<longrightarrow>
        generateOutputPath env requested = Inr finalPath)
   \<and> (fst (editWithRatio env cid ctx image_path edit_prompt requested reference_images ratio)
         = ImageEdited subject finalPath n w t \<longrightarrow>
        editOutputPath env ctx image_path requested = Inr finalPath)"
proof -
  have a: "output_path \<noteq> [] \<longrightarrow>
      generateOutputPath env (Some output_path)
        = Inr (forcePngExtension (resolveAgainstCwd env output_path))
      \<and> editOutputPath env ctx image_path (Some output_path)
        = Inr (forcePngExtension (resolveAgainstCwd env output_path))"
    by (simp add: generateOutputPath_def editOutputPath_def requestedOutputPath_def truthy_def)
  have b: "resolveAgainstCwd env output_path
       = (if path_isAbsolute env output_path then output_path
          else path_join env [process_cwd env, output_path])"
    by (simp add: resolveAgainstCwd_def)
  have c: "forcePngExtension q
       = (if endsWith (toLowerCase q) ''.png'' then q else stripExtension q @ ''.png'')"
    by (simp add: forcePngExtension_def)
  have d: "\<not> truthy requested \<and> fs_mkdir env (defaultOutputDir env) = None \<longrightarrow>
        generateOutputPath env requested
          = Inr (path_join env
                   [defaultOutputDir env, ''generated_'' @ show_nat (Date_now env 0) @ ''.png''])
        \<and> editOutputPath env ctx image_path requested
          = Inr (path_join env
                   [defaultOutputDir env,
                    (case getImageFromHistory ctx image_path of
                       Some historyImage \<Rightarrow> ''history_'' @ entry_id historyImage
                     | None \<Rightarrow> path_parse_name env image_path)
                    @ ''_edited_'' @ show_nat (Date_now env 0) @ ''.png''])"
    by (simp add: generateOutputPath_def editOutputPath_def Let_def)
  show ?thesis
    using a b c d forcePngExtension_lower[of q] stripExtension_ext[of ext base]
      stripExtension_changes[of q] forcePngExtension_out[of dir] forcePngExtension_out_jpg[of dir]
      generateWithRatio_path[of env cid ctx prompt requested use_image_history reference_images ratio
        finalPath n w t]
      editWithRatio_path[of env cid ctx image_path edit_prompt requested reference_images ratio
        subject finalPath n w t]
    by blast
qed

lemma show_nat_sample: "show_nat 1700000000000 = ''1700000000000''"
  by (simp add: show_nat.simps)

theorem output_path_normalization_witness:
  "generateOutputPath sampleEnv (Some ''pics/out.jpg'') = Inr ''/work/pics/out.png''
   \<and> generateOutputPath sampleEnv (Some ''/tmp/out'') = Inr ''/tmp/out.png''
   \<and> generateOutputPath sampleEnv None
       = Inr ''/home/u/Documents/nanobanana_generated/generated_1700000000000.png''
   \<and> editOutputPath sampleEnv newContext ''ref.png'' (Some [])
       = Inr ''/home/u/Documents/nanobanana_generated/ref_edited_1700000000000.png''"
proof -
  have r1: "resolveAgainstCwd sampleEnv ''pics/out.jpg'' = ''/work/pics'' @ ''/out.jpg''"
    by (simp add: resolveAgainstCwd_def sampleEnv_def)
  have r2: "resolveAgainstCwd sampleEnv ''/tmp/out'' = ''/tmp'' @ ''/out''"
    by (simp add: resolveAgainstCwd_def sampleEnv_def)
  have m: "fs_mkdir sampleEnv (defaultOutputDir sampleEnv) = None"
    by (simp add: sampleEnv_def)
  have t: "\<not> truthy None" "\<not> truthy (Some [])"
    by (simp_all add: truthy_def)
  have g: "getImageFromHistory newContext ''ref.png'' = None"
    by (simp add: getImageFromHistory_def newContext_def)
  have j: "path_join sampleEnv [defaultOutputDir sampleEnv, name]
             = ''/home/u/Documents/nanobanana_generated/'' @ name" for name
    by (simp add: defaultOutputDir_def sampleEnv_def)
  have n: "path_parse_name sampleEnv ''ref.png'' = ''ref''" "Date_now sampleEnv 0 = 1700000000000"
    by (simp_all add: sampleEnv_def lastSegment_def)
  note a = output_path_normalization[of "''pics/out.jpg''" sampleEnv newContext "''ref.png''" "''x''"
      "''x''" "''x''" "''/work/pics''" None]
  note b = output_path_normalization[of "''/tmp/out''" sampleEnv newContext "''ref.png''" "''x''"
      "''x''" "''x''" "''/tmp''" "Some []"]
  have ne: "''pics/out.jpg'' \<noteq> []" "''/tmp/out'' \<noteq> []"
    by simp_all
  from a ne(1) have a1: "generateOutputPath sampleEnv (Some ''pics/out.jpg'')
      = Inr (forcePngExtension (resolveAgainstCwd sampleEnv ''pics/out.jpg''))"
    by blast
  from a have a2: "forcePngExtension (''/work/pics'' @ ''/out.jpg'') = ''/work/pics'' @ ''/out.png''"
    by blast
  from b ne(2) have b1: "generateOutputPath sampleEnv (Some ''/tmp/out'')
      = Inr (forcePngExtension (resolveAgainstCwd sampleEnv ''/tmp/out''))"
    by blast
  from b have b2: "forcePngExtension (''/tmp'' @ ''/out'') = ''/tmp'' @ ''/out.png''"
    by blast
  have "generateOutputPath sampleEnv (Some ''pics/out.jpg'') = Inr ''/work/pics/out.png''"
    by (simp only: a1 r1 a2) simp
  moreover have "generateOutputPath sampleEnv (Some ''/tmp/out'') = Inr ''/tmp/out.png''"
    by (simp only: b1 r2 b2) simp
  moreover have "generateOutputPath sampleEnv None
       = Inr ''/home/u/Documents/nanobanana_generated/generated_1700000000000.png''"
  proof -
    from a m t(1) have "generateOutputPath sampleEnv None
          = Inr (path_join sampleEnv
                   [defaultOutputDir sampleEnv, ''generated_'' @ show_nat (Date_now sampleEnv 0) @ ''.png''])"
      by blast
    then show ?thesis
      by (simp add: j n show_nat_sample)
  qed
  moreover have "editOutputPath sampleEnv newContext ''ref.png'' (Some [])
       = Inr ''/home/u/Documents/nanobanana_generated/ref_edited_1700000000000.png''"
  proof -
    from b m t(2) have "editOutputPath sampleEnv newContext ''ref.png'' (Some [])
          = Inr (path_join sampleEnv
                   [defaultOutputDir sampleEnv,
                    (case getImageFromHistory newContext ''ref.png'' of
                       Some historyImage \<Rightarrow> ''history_'' @ entry_id historyImage
                     | None \<Rightarrow> path_parse_name sampleEnv ''ref.png'')
                    @ ''_edited_'' @ show_nat (Date_now sampleEnv 0) @ ''.png''])"
      by blast
    then show ?thesis
      by (simp add: j n g show_nat_sample)
  qed
  ultimately show ?thesis by blast
qed

subsection \<open>Streaming aggregation\<close>

lemma partStep_image:
  "fst (partStep acc part) = (case spec_imagePayload part of None \<Rightarrow> fst acc | Some d \<Rightarrow> Some d)"
  by (auto simp: partStep_def spec_imagePayload_def truthy_def split: option.splits)

lemma partStep_text:
  "concat (snd (partStep acc part)) = concat (snd acc) @ spec_textFragment part"
  by (auto simp: partStep_def spec_textFragment_def truthy_def split: option.splits)

lemma foldl_partStep_image:
  "fst (foldl partStep acc parts)
     = (case List.map_filter spec_imagePayload parts of [] \<Rightarrow> fst acc | payloads \<Rightarrow> Some (last payloads))"
proof (induction parts rule: rev_induct)
  case Nil
  then show ?case by (simp add:)
next
  case (snoc part parts)
  have "List.map_filter spec_imagePayload (parts @ [part])
          = List.map_filter spec_imagePayload parts
            @ (case spec_imagePayload part of None \<Rightarrow> [] | Some d \<Rightarrow> [d])"
    by (simp add: map_filter_def split: option.splits)
  with snoc show ?case
    by (simp add: partStep_image split: option.splits list.splits)
qed

lemma foldl_partStep_text:
  "concat (snd (foldl partStep acc parts)) = concat (snd acc) @ concat (map spec_textFragment parts)"
  by (induction parts rule: rev_induct) (simp_all add: partStep_text)

lemma chunkStep_image:
  "fst (chunkStep acc chunk) = (case spec_chunkImage chunk of None \<Rightarrow> fst acc | Some d \<Rightarrow> Some d)"
  by (simp add: chunkStep_def spec_chunkImage_def foldl_partStep_image split: list.splits)

lemma chunkStep_text:
  "concat (snd (chunkStep acc chunk)) = concat (snd acc) @ spec_chunkText chunk"
  by (simp add: chunkStep_def spec_chunkText_def foldl_partStep_text)

lemma foldl_chunkStep_image:
  "fst (foldl chunkStep acc chunks)
     = (case spec_streamImage chunks of None \<Rightarrow> fst acc | Some d \<Rightarrow> Some d)"
proof (induction chunks rule: rev_induct)
  case Nil
  then show ?case by (simp add: spec_streamImage_def)
next
  case (snoc chunk chunks)
  show ?case
  proof (cases "spec_chunkImage chunk")
    case None
    then have "spec_streamImage (chunks @ [chunk]) = spec_streamImage chunks"
      by (simp add: spec_streamImage_def)
    with None snoc show ?thesis
      by (simp add: chunkStep_image)
  next
    case (Some d)
    have "(case bearing @ [chunk] of [] \<Rightarrow> None | b \<Rightarrow> spec_chunkImage (last b)) = spec_chunkImage chunk"
      for bearing
      by (cases bearing) simp_all
    with Some have "spec_streamImage (chunks @ [chunk]) = Some d"
      by (simp add: spec_streamImage_def)
    with Some show ?thesis
      by (simp add: chunkStep_image)
  qed
qed

lemma foldl_chunkStep_text:
  "concat (snd (foldl chunkStep acc chunks)) = concat (snd acc) @ spec_streamText chunks"
  by (induction chunks rule: rev_induct) (simp_all add: chunkStep_text spec_streamText_def)

lemma aggregateChunks_stream:
  "fst (aggregateChunks chunks) = spec_streamImage chunks"
  "concat (snd (aggregateChunks chunks)) = spec_streamText chunks"
  by (simp_all add: aggregateChunks_def foldl_chunkStep_image foldl_chunkStep_text split: option.splits)

lemma streamText_plain:
  assumes "\<forall>chunk \<in> set chunks. length chunk \<le> 1"
    and "\<forall>part \<in> set (concat (concat chunks)).
           \<not> (truthy (inlineData_data part) \<and> truthy (part_text part))"
  shows "spec_streamText chunks = concat (map spec_partText (concat (concat chunks)))"
  using assms
proof (induction chunks)
  case Nil
  then show ?case by (simp add: spec_streamText_def)
next
  case (Cons chunk chunks)
  have one: "chunkParts chunk = concat chunk"
  proof (cases chunk)
    case Nil
    then show ?thesis by (simp add: chunkParts_def)
  next
    case (Cons candidate others)
    with Cons.prems(1) have "others = []" by simp
    with Cons show ?thesis by (simp add: chunkParts_def)
  qed
  have h: "spec_textFragment part = spec_partText part" if "part \<in> set (concat chunk)" for part
    using Cons.prems(2) that
    by (auto simp: spec_textFragment_def spec_partText_def truthy_def split: option.splits)
  have m: "map spec_textFragment (concat chunk) = map spec_partText (concat chunk)"
    by (rule map_cong[OF refl]) (rule h)
  have "spec_chunkText chunk = concat (map spec_partText (concat chunk))"
    by (simp only: spec_chunkText_def one m)
  moreover have "spec_streamText chunks = concat (map spec_partText (concat (concat chunks)))"
    using Cons by simp
  ultimately show ?case
    by (simp add: spec_streamText_def)
qed

lemma callGeminiImageAPI_response:
  "fetch env parts ratio = Inr response \<Longrightarrow>
   callGeminiImageAPI env parts ratio
     = (if \<not> response_ok response
        then Inl (ApiRequestFailed (response_status response) (response_text response))
        else case JSON_parse env (response_text response) of
               None \<Rightarrow>
                 Inr \<lparr>imageData = None, textResponse = response_text response,
                      error = Some ''Failed to parse API response''\<rparr>
             | Some received \<Rightarrow>
                 Inr \<lparr>imageData = spec_streamImage received, textResponse = spec_streamText received,
                      error = None\<rparr>)"
  by (simp add: callGeminiImageAPI_def aggregateChunks_stream split: option.splits)

lemma generateWithRatio_failures:
  "callGeminiImageAPI env (generateParts env ctx prompt use_image_history reference_images) ratio
     = Inr \<lparr>imageData = None, textResponse = t, error = None\<rparr> \<Longrightarrow>
   generateWithRatio env cid ctx prompt output_path use_image_history reference_images ratio
     = (ImageGenerationFailed t, ctx,
        [ImageApiCall (generateParts env ctx prompt use_image_history reference_images) ratio])"
  "callGeminiImageAPI env (generateParts env ctx prompt use_image_history reference_images) ratio
     = Inr \<lparr>imageData = None, textResponse = t, error = Some ''Failed to parse API response''\<rparr> \<Longrightarrow>
   generateWithRatio env cid ctx prompt output_path use_image_history reference_images ratio
     = (ImageGenerationFailedWith ''Failed to parse API response'' t, ctx,
        [ImageApiCall (generateParts env ctx prompt use_image_history reference_images) ratio])"
  "callGeminiImageAPI env (generateParts env ctx prompt use_image_history reference_images) ratio
     = Inl e \<Longrightarrow>
   generateWithRatio env cid ctx prompt output_path use_image_history reference_images ratio
     = (ErrorGeneratingImage e, ctx,
        [ImageApiCall (generateParts env ctx prompt use_image_history reference_images) ratio])"
  by (simp_all add: generateWithRatio_def Let_def truthy_def)

lemma editWithRatio_failures:
  assumes "resolveSubject env ctx image_path = Inr (resolvedImagePath, imageBase64)"
  shows
  "callGeminiImageAPI env (editParts env ctx edit_prompt reference_images imageBase64) ratio
     = Inr \<lparr>imageData = None, textResponse = t, error = None\<rparr> \<Longrightarrow>
   editWithRatio env cid ctx image_path edit_prompt output_path reference_images ratio
     = (ImageEditingFailed t, ctx,
        [ImageApiCall (editParts env ctx edit_prompt reference_images imageBase64) ratio])"
  "callGeminiImageAPI env (editParts env ctx edit_prompt reference_images imageBase64) ratio
     = Inr \<lparr>imageData = None, textResponse = t, error = Some ''Failed to parse API response''\<rparr> \<Longrightarrow>
   editWithRatio env cid ctx image_path edit_prompt output_path reference_images ratio
     = (ImageEditingFailedWith ''Failed to parse API response'' t, ctx,
        [ImageApiCall (editParts env ctx edit_prompt reference_images imageBase64) ratio])"
  "callGeminiImageAPI env (editParts env ctx edit_prompt reference_images imageBase64) ratio
     = Inl e \<Longrightarrow>
   editWithRatio env cid ctx image_path edit_prompt output_path reference_images ratio
     = (ErrorEditingImage e, ctx,
        [ImageApiCall (editParts env ctx edit_prompt reference_images imageBase64) ratio])"
  using assms by (simp_all add: editWithRatio_def Let_def truthy_def)

text \<open>
  Claim C6. For every sequence of chunks, the aggregation loop returns as text the
  concatenation of the text fragments of every chunk in arrival order, and as image the
  image of the last chunk that carries one. (The loop reads the first candidate of a
  chunk, and a part that carries an image payload contributes no text; for chunks of at
  most one candidate whose parts never carry both, the text is the concatenation of the
  texts of all parts.) A transport response that is not ok makes the adapter throw; a
  body that cannot be parsed makes it return the parse error with the raw body; and the
  generate and edit handlers report an aggregated result with no image and no error as a
  failure of its own kind, with the model's text, different from the responses they give
  for the thrown error and for the parse error. None of the three changes the context.
\<close>

theorem stream_aggregation:
  "fst (aggregateChunks chunks) = spec_streamImage chunks
   \<and> concat (snd (aggregateChunks chunks)) = spec_streamText chunks
   \<and> ((\<forall>chunk \<in> set chunks. length chunk \<le> 1)
       \<and> (\<forall>part \<in> set (concat (concat chunks)).
             \<not> (truthy (inlineData_data part) \<and> truthy (part_text part))) \<longrightarrow>
       spec_streamText chunks = concat (map spec_partText (concat (concat chunks))))
   \<and> (fetch env parts ratio = Inr response \<longrightarrow>
       callGeminiImageAPI env parts ratio
         = (if \<not> response_ok response
            then Inl (ApiRequestFailed (response_status response) (response_text response))
            else case JSON_parse env (response_text response) of
                   None \<Rightarrow>
                     Inr \<lparr>imageData = None, textResponse = response_text response,
                          error = Some ''Failed to parse API response''\<rparr>
                 | Some received \<Rightarrow>
                     Inr \<lparr>imageData = spec_streamImage received, textResponse = spec_streamText received,
                          error = None\<rparr>))
   \<and> (callGeminiImageAPI env (generateParts env ctx prompt use_image_history reference_images) ratio
         = Inr \<lparr>imageData = None, textResponse = t, error = None\<rparr> \<longrightarrow>
       generateWithRatio env cid ctx prompt output_path use_image_history reference_images ratio
         = (ImageGenerationFailed t, ctx,
            [ImageApiCall (generateParts env ctx prompt use_image_history reference_images) ratio]))
   \<and> (callGeminiImageAPI env (generateParts env ctx prompt use_image_history reference_images) ratio
         = Inr \<lparr>imageData = None, textResponse = t, error = Some ''Failed to parse API response''\<rparr> \<longrightarrow>
       generateWithRatio env cid ctx prompt output_path use_image_history reference_images ratio
         = (ImageGenerationFailedWith ''Failed to parse API response'' t, ctx,
            [ImageApiCall (generateParts env ctx prompt use_image_history reference_images) ratio]))
   \<and> (callGeminiImageAPI env (generateParts env ctx prompt use_image_history reference_images) ratio
         = Inl e \<longrightarrow>
       generateWithRatio env cid ctx prompt output_path use_image_history reference_images ratio
         = (ErrorGeneratingImage e, ctx,
            [ImageApiCall (generateParts env ctx prompt use_image_history reference_images) ratio]))
   \<and> (resolveSubject env ctx image_path = Inr (resolvedImagePath, imageBase64) \<longrightarrow>
       (callGeminiImageAPI env (editParts env ctx edit_prompt reference_images imageBase64) ratio
          = Inr \<lparr>imageData = None, textResponse = t, error = None\<rparr> \<longrightarrow>
        editWithRatio env cid ctx image_path edit_prompt output_path reference_images ratio
          = (ImageEditingFailed t, ctx,
             [ImageApiCall (editParts env ctx edit_prompt reference_images imageBase64) ratio]))
       \<and> (callGeminiImageAPI env (editParts env ctx edit_prompt reference_images imageBase64) ratio
          = Inr \<lparr>imageData = None, textResponse = t, error = Some ''Failed to parse API response''\<rparr> \<longrightarrow>
        editWithRatio env cid ctx image_path edit_prompt output_path reference_images ratio
          = (ImageEditingFailedWith ''Failed to parse API response'' t, ctx,
             [ImageApiCall (editParts env ctx edit_prompt reference_images imageBase64) ratio]))
       \<and> (callGeminiImageAPI env (editParts env ctx edit_prompt reference_images imageBase64) ratio
          = Inl e \<longrightarrow>
        editWithRatio env cid ctx image_path edit_prompt output_path reference_images ratio
          = (ErrorEditingImage e, ctx,
             [ImageApiCall (editParts env ctx edit_prompt reference_images imageBase64) ratio])))"
proof (intro conjI impI)
  show "fst (aggregateChunks chunks) = spec_streamImage chunks"
    by (rule aggregateChunks_stream)
  show "concat (snd (aggregateChunks chunks)) = spec_streamText chunks"
    by (rule aggregateChunks_stream)
  show "spec_streamText chunks = concat (map spec_partText (concat (concat chunks)))"
    if "(\<forall>chunk \<in> set chunks. length chunk \<le> 1)
       \<and> (\<forall>part \<in> set (concat (concat chunks)).
             \<not> (truthy (inlineData_data part) \<and> truthy (part_text part)))"
    using that by (intro streamText_plain) blast+
qed (simp_all add: callGeminiImageAPI_response generateWithRatio_failures editWithRatio_failures)

theorem stream_aggregation_witness:
  "fst (aggregateChunks sampleChunks) = Some ''QkJC''
   \<and> concat (snd (aggregateChunks sampleChunks)) = ''Here you go''
   \<and> generateWithRatio textOnlyEnv ''default'' newContext ''A'' None False [] ''1:1''
       = (ImageGenerationFailed ''I cannot draw that'', newContext,
          [ImageApiCall [TextPart ''A''] ''1:1''])"
proof -
  let ?received = "[[[\<lparr>inlineData_data = None, part_text = Some ''I cannot draw that''\<rparr>]]]"
  let ?response = "\<lparr>response_ok = True, response_status = 200, response_text = ''[]''\<rparr>"
  have i: "spec_streamImage sampleChunks = Some ''QkJC''"
    by (simp add: sampleChunks_def spec_streamImage_def spec_chunkImage_def chunkParts_def spec_imagePayload_def
          truthy_def)
  have t: "spec_streamText sampleChunks = ''Here you go''"
    by (simp add: sampleChunks_def spec_streamText_def spec_chunkText_def chunkParts_def spec_textFragment_def
          truthy_def)
  have p: "generateParts textOnlyEnv newContext ''A'' False [] = [TextPart ''A'']"
    by (simp add: generateParts_def historyParts_def finalPrompt_def)
  have f: "fetch textOnlyEnv [TextPart ''A''] ''1:1'' = Inr ?response"
    by (simp add: textOnlyEnv_def sampleEnv_def)
  have j: "JSON_parse textOnlyEnv ''[]'' = Some ?received"
    by (simp add: textOnlyEnv_def)
  have s: "spec_streamImage ?received = None" "spec_streamText ?received = ''I cannot draw that''"
    by (simp_all add: spec_streamImage_def spec_chunkImage_def chunkParts_def spec_imagePayload_def truthy_def
          spec_streamText_def spec_chunkText_def spec_textFragment_def)
  note a = stream_aggregation[of sampleChunks textOnlyEnv "[TextPart ''A'']" "''1:1''" ?response
      newContext "''A''" False "[]" "''I cannot draw that''" "''default''" None]
  from a i have "fst (aggregateChunks sampleChunks) = Some ''QkJC''"
    by simp
  moreover from a t have "concat (snd (aggregateChunks sampleChunks)) = ''Here you go''"
    by simp
  moreover have "generateWithRatio textOnlyEnv ''default'' newContext ''A'' None False [] ''1:1''
       = (ImageGenerationFailed ''I cannot draw that'', newContext,
          [ImageApiCall [TextPart ''A''] ''1:1''])"
  proof -
    from a f have "callGeminiImageAPI textOnlyEnv [TextPart ''A''] ''1:1''
        = Inr \<lparr>imageData = None, textResponse = ''I cannot draw that'', error = None\<rparr>"
      by (simp add: j s)
    with a show ?thesis
      by (simp add: p)
  qed
  ultimately show ?thesis by blast
qed

end
